theory Spec2Isabelle
  imports Complex_Main "HOL-Library.Char_ord" "HOL-Library.List_Lexorder"
begin

section \<open>Python and torch values\<close>

text \<open>
  Tensors are modelled without batch dimensions (batch shape \<open>()\<close>): a scalar tensor is a
  number, a 1-d tensor is a list, and a 2-d tensor is a \<open>matrix\<close> that carries its shape,
  so that an empty slice such as \<open>prec_sqrt[:0, :]\<close> of shape \<open>(0, c)\<close> is told apart
  from one of shape \<open>(0, 0)\<close>. Floating point numbers of the potential algebra are taken
  as reals. Every exception of the source is a value of type \<open>error\<close>.
\<close>

datatype error =
    AssertionError
  | NotImplementedError
  | NameError string
  | RuntimeError
  | ZeroDivisionError
  | TypeError
  | AttributeError
  | ValueError

record matrix =
  nrows :: nat
  ncols :: nat
  ent :: "real list list"

definition dotp :: "real list \<Rightarrow> real list \<Rightarrow> real" where
  "dotp u v = sum_list (map (\<lambda>(x, y). x * y) (zip u v))"

definition column :: "matrix \<Rightarrow> nat \<Rightarrow> real list" where
  "column M j = map (\<lambda>row. row ! j) (ent M)"

definition transpose_m :: "matrix \<Rightarrow> matrix" where
  "transpose_m M = \<lparr>nrows = ncols M, ncols = nrows M, ent = map (column M) [0..<ncols M]\<rparr>"

text \<open>\<open>v.matmul(M)\<close> for a 1-d \<open>v\<close>: torch raises RuntimeError unless \<open>v.size(0) == M.size(0)\<close>.\<close>

definition matmul_vm :: "real list \<Rightarrow> matrix \<Rightarrow> error + real list" where
  "matmul_vm v M =
     (if length v \<noteq> nrows M then Inl RuntimeError
      else Inr (map (\<lambda>j. dotp v (column M j)) [0..<ncols M]))"

text \<open>\<open>M.matmul(v)\<close> for a 1-d \<open>v\<close>: torch raises RuntimeError unless \<open>M.size(1) == v.size(0)\<close>.\<close>

definition matmul_mv :: "matrix \<Rightarrow> real list \<Rightarrow> error + real list" where
  "matmul_mv M v =
     (if ncols M \<noteq> length v then Inl RuntimeError
      else Inr (map (\<lambda>row. dotp row v) (ent M)))"

definition matmul_mm :: "matrix \<Rightarrow> matrix \<Rightarrow> error + matrix" where
  "matmul_mm A B =
     (if ncols A \<noteq> nrows B then Inl RuntimeError
      else Inr \<lparr>nrows = nrows A, ncols = ncols B,
                ent = map (\<lambda>row. map (\<lambda>j. dotp row (column B j)) [0..<ncols B]) (ent A)\<rparr>)"

text \<open>
  Elementwise operations broadcast as torch does: two sizes are compatible when they are
  equal or one of them is 1, and a dimension of size 1 is repeated.
\<close>

definition bdim :: "nat \<Rightarrow> nat \<Rightarrow> nat option" where
  "bdim a b = (if a = b then Some a else if a = 1 then Some b else if b = 1 then Some a else None)"

definition bget :: "real list \<Rightarrow> nat \<Rightarrow> real" where
  "bget xs i = (if length xs = 1 then xs ! 0 else xs ! i)"

definition ew_vec :: "(real \<Rightarrow> real \<Rightarrow> real) \<Rightarrow> real list \<Rightarrow> real list \<Rightarrow> error + real list" where
  "ew_vec f u v =
     (case bdim (length u) (length v) of
        None \<Rightarrow> Inl RuntimeError
      | Some n \<Rightarrow> Inr (map (\<lambda>i. f (bget u i) (bget v i)) [0..<n]))"

definition mget :: "matrix \<Rightarrow> nat \<Rightarrow> nat \<Rightarrow> real" where
  "mget A i j = bget (ent A ! (if nrows A = 1 then 0 else i)) (if ncols A = 1 then 0 else j)"

definition ew_mat :: "(real \<Rightarrow> real \<Rightarrow> real) \<Rightarrow> matrix \<Rightarrow> matrix \<Rightarrow> error + matrix" where
  "ew_mat f A B =
     (case bdim (nrows A) (nrows B) of
        None \<Rightarrow> Inl RuntimeError
      | Some r \<Rightarrow>
         (case bdim (ncols A) (ncols B) of
            None \<Rightarrow> Inl RuntimeError
          | Some c \<Rightarrow>
              Inr \<lparr>nrows = r, ncols = c,
                   ent = map (\<lambda>i. map (\<lambda>j. f (mget A i j) (mget B i j)) [0..<c]) [0..<r]\<rparr>))"

text \<open>\<open>torch.nn.functional.pad\<close> on the last dimension, with zeros; the pads are lengths.\<close>

definition pad :: "real list \<Rightarrow> nat \<times> nat \<Rightarrow> real list" where
  "pad v lr = replicate (fst lr) 0 @ v @ replicate (snd lr) 0"

definition pad_m :: "matrix \<Rightarrow> nat \<times> nat \<Rightarrow> matrix" where
  "pad_m M lr = \<lparr>nrows = nrows M, ncols = fst lr + ncols M + snd lr,
                 ent = map (\<lambda>row. pad row lr) (ent M)\<rparr>"

text \<open>Python slices \<open>v[a:]\<close>, \<open>v[:a]\<close>, \<open>M[a:, :]\<close>, \<open>M[:a, :]\<close> for \<open>a \<ge> 0\<close>.\<close>

definition rows_to :: "matrix \<Rightarrow> nat \<Rightarrow> matrix" where
  "rows_to M a = \<lparr>nrows = min a (nrows M), ncols = ncols M, ent = take a (ent M)\<rparr>"

definition rows_from :: "matrix \<Rightarrow> nat \<Rightarrow> matrix" where
  "rows_from M a = \<lparr>nrows = nrows M - a, ncols = ncols M, ent = drop a (ent M)\<rparr>"

section \<open>GaussianS (pyro/ops/gaussian\_sqrt.py)\<close>

record gaussianS =
  log_normalizer :: real
  info_vec :: "real list"
  prec_sqrt :: matrix

text \<open>
  \<open>GaussianS.__init__\<close>. Of its three assertions the first two hold for every 1-d
  \<open>info_vec\<close> and 2-d \<open>prec_sqrt\<close>; the third compares the shape of \<open>prec_sqrt\<close> with
  \<open>(n, n)\<close>, \<open>n\<close> the size of \<open>info_vec\<close>.
\<close>

definition GaussianS_init :: "real \<Rightarrow> real list \<Rightarrow> matrix \<Rightarrow> error + gaussianS" where
  "GaussianS_init lz iv ps =
     (if (nrows ps, ncols ps) = (length iv, length iv)
      then Inr \<lparr>log_normalizer = lz, info_vec = iv, prec_sqrt = ps\<rparr>
      else Inl AssertionError)"

definition dim :: "gaussianS \<Rightarrow> nat" where
  "dim g = length (info_vec g)"

text \<open>
  \<open>GaussianS.log_density\<close>, statement by statement. After the second statement
  \<open>result\<close> is a scalar, so the third adds it to every entry of \<open>info_vec\<close>.
\<close>

definition log_density :: "gaussianS \<Rightarrow> real list \<Rightarrow> error + real" where
  "log_density g val =
     (if length val = 0 then Inr (log_normalizer g)
      else
        (case matmul_vm val (prec_sqrt g) of
           Inl e \<Rightarrow> Inl e
         | Inr r1 \<Rightarrow>
            (let r2 = (- 0.5) * sum_list (map (\<lambda>x. x ^ 2) r1);
                 r3 = map (\<lambda>u. r2 + u) (info_vec g)
             in (case ew_vec (*) val r3 of
                   Inl e \<Rightarrow> Inl e
                 | Inr r4 \<Rightarrow> Inr (sum_list r4 + log_normalizer g)))))"

text \<open>
  The formula of the docstring and of the specification:
  \<open>-0.5 * value.T @ precision @ value + value.T @ info_vec + log_normalizer\<close> with
  \<open>precision = prec_sqrt @ prec_sqrt.T\<close>.
\<close>

definition precision :: "gaussianS \<Rightarrow> error + matrix" where
  "precision g = matmul_mm (prec_sqrt g) (transpose_m (prec_sqrt g))"

definition spec_log_density :: "gaussianS \<Rightarrow> real list \<Rightarrow> error + real" where
  "spec_log_density g val =
     (case precision g of
        Inl e \<Rightarrow> Inl e
      | Inr P \<Rightarrow>
         (case matmul_mv P val of
            Inl e \<Rightarrow> Inl e
          | Inr Pv \<Rightarrow> Inr (- 0.5 * dotp val Pv + dotp val (info_vec g) + log_normalizer g)))"

text \<open>
  \<open>GaussianS.event_pad\<close>: the information vector is padded along its only dimension
  and \<open>prec_sqrt\<close> along its last one (the pad \<open>lr + (0, 0)\<close> leaves the rows alone).
\<close>

definition event_pad :: "gaussianS \<Rightarrow> nat \<Rightarrow> nat \<Rightarrow> error + gaussianS" where
  "event_pad g left right =
     (let lr = (left, right)
      in GaussianS_init (log_normalizer g) (pad (info_vec g) lr) (pad_m (prec_sqrt g) lr))"

text \<open>
  \<open>GaussianS.event_permute\<close>: its first statement is \<open>raise NotImplementedError\<close>; the
  statements after it are never run.
\<close>

definition event_permute :: "gaussianS \<Rightarrow> nat list \<Rightarrow> error + gaussianS" where
  "event_permute g perm = Inl NotImplementedError"

text \<open>\<open>GaussianS.__add__\<close>: the arguments of the constructor are evaluated left to right.\<close>

definition add :: "gaussianS \<Rightarrow> gaussianS \<Rightarrow> error + gaussianS" where
  "add g other =
     (if dim g \<noteq> dim other then Inl AssertionError
      else
        (case ew_vec (+) (info_vec g) (info_vec other) of
           Inl e \<Rightarrow> Inl e
         | Inr iv \<Rightarrow>
            (case ew_mat (+) (pad_m (prec_sqrt g) (0, dim other))
                            (pad_m (prec_sqrt other) (dim g, 0)) of
               Inl e \<Rightarrow> Inl e
             | Inr ps \<Rightarrow>
                 GaussianS_init (log_normalizer g + log_normalizer other) iv ps)))"

text \<open>
  \<open>GaussianS.condition\<close>. The assertion makes \<open>n\<close> non-negative, so the slices
  \<open>[:n]\<close> and \<open>[n:]\<close> are \<open>take n\<close> and \<open>drop n\<close>.
\<close>

definition condition :: "gaussianS \<Rightarrow> real list \<Rightarrow> error + gaussianS" where
  "condition g val =
     (if \<not> length val \<le> length (info_vec g) then Inl AssertionError
      else
        (let n = dim g - length val;
             info_a = take n (info_vec g);
             info_b = drop n (info_vec g);
             Psqrt_a = rows_to (prec_sqrt g) n;
             Psqrt_b = rows_from (prec_sqrt g) n;
             b = val
         in (case matmul_vm b Psqrt_b of
               Inl e \<Rightarrow> Inl e
             | Inr Psqrt_b_b \<Rightarrow>
                (case matmul_mv Psqrt_a Psqrt_b_b of
                   Inl e \<Rightarrow> Inl e
                 | Inr t \<Rightarrow>
                    (case ew_vec (-) info_a t of
                       Inl e \<Rightarrow> Inl e
                     | Inr iv \<Rightarrow>
                        (case ew_vec (*) b info_b of
                           Inl e \<Rightarrow> Inl e
                         | Inr bi \<Rightarrow>
                             GaussianS_init
                               (log_normalizer g
                                  + (- 0.5) * sum_list (map (\<lambda>x. x ^ 2) Psqrt_b_b)
                                  + sum_list bi)
                               iv Psqrt_a))))))"

text \<open>
  \<open>GaussianS.marginalize\<close>. Its two guards are modelled as written. The computation
  after them (lines 188 to 220: a QR factorisation, two triangular solves and a
  logarithm, all done by torch) is the parameter \<open>schur\<close>; no statement below depends on
  what it returns.
\<close>

definition marginalize ::
  "(gaussianS \<Rightarrow> int \<Rightarrow> int \<Rightarrow> error + gaussianS) \<Rightarrow> gaussianS \<Rightarrow> int \<Rightarrow> int \<Rightarrow> error + gaussianS" where
  "marginalize schur g left right =
     (if left = 0 \<and> right = 0 then Inr g
      else if left > 0 \<and> right > 0 then Inl NotImplementedError
      else schur g left right)"

text \<open>
  \<open>gaussian_tensordotS\<close>. The operands of \<open>+\<close> are evaluated left to right, then
  \<open>__add__\<close>, \<open>event_permute\<close> and \<open>marginalize\<close>.
\<close>

definition gaussian_tensordotS ::
  "(gaussianS \<Rightarrow> int \<Rightarrow> int \<Rightarrow> error + gaussianS) \<Rightarrow> gaussianS \<Rightarrow> gaussianS \<Rightarrow> int \<Rightarrow> error + gaussianS" where
  "gaussian_tensordotS schur x y dims =
     (let na = int (dim x) - dims;
          nb = dims;
          nc = int (dim y) - dims
      in if \<not> na \<ge> 0 then Inl AssertionError
         else if \<not> nb \<ge> 0 then Inl AssertionError
         else if \<not> nc \<ge> 0 then Inl AssertionError
         else
           (let perm = [0..<nat na] @ [dim x..<dim x + nat nc] @ [nat na..<dim x]
            in (case event_pad x 0 (nat nc) of
                  Inl e \<Rightarrow> Inl e
                | Inr xp \<Rightarrow>
                   (case event_pad y (nat na) 0 of
                      Inl e \<Rightarrow> Inl e
                    | Inr yp \<Rightarrow>
                       (case add xp yp of
                          Inl e \<Rightarrow> Inl e
                        | Inr s \<Rightarrow>
                           (case event_permute s perm of
                              Inl e \<Rightarrow> Inl e
                            | Inr p \<Rightarrow> marginalize schur p 0 nb))))))"

definition unit_gaussian :: gaussianS where
  "unit_gaussian = \<lparr>log_normalizer = 0, info_vec = [0],
                     prec_sqrt = \<lparr>nrows = 1, ncols = 1, ent = [[1]]\<rparr>\<rparr>"

definition empty_gaussian :: gaussianS where
  "empty_gaussian = \<lparr>log_normalizer = 0, info_vec = [],
                      prec_sqrt = \<lparr>nrows = 0, ncols = 0, ent = []\<rparr>\<rparr>"

section \<open>StudentT (pyro/ops/studentt.py)\<close>

record studentT =
  st_log_normalizer :: real
  st_info_vec :: "real list"
  st_precision :: matrix
  df :: real
  rank :: real

definition StudentT_init :: "real \<Rightarrow> real list \<Rightarrow> matrix \<Rightarrow> real \<Rightarrow> real \<Rightarrow> error + studentT" where
  "StudentT_init lz iv P d r =
     (if (nrows P, ncols P) = (length iv, length iv)
      then Inr \<lparr>st_log_normalizer = lz, st_info_vec = iv, st_precision = P, df = d, rank = r\<rparr>
      else Inl AssertionError)"

definition st_dim :: "studentT \<Rightarrow> nat" where
  "st_dim g = length (st_info_vec g)"

text \<open>
  The names bound at the top level of studentt.py: its imports (\<open>math\<close>, \<open>torch\<close>,
  \<open>lazy_property\<close>, \<open>pad\<close>, \<open>broadcast_shape\<close>, \<open>Gamma\<close>) and its own definitions.
\<close>

definition studentt_globals :: "string list" where
  "studentt_globals =
     [''math'', ''torch'', ''lazy_property'', ''pad'', ''broadcast_shape'', ''Gamma'',
      ''absolute_central_moment_matching'', ''StudentT'', ''mvt_to_studentt'',
      ''matrix_and_mvt_to_studentt'', ''studentt_tensordot'']"

text \<open>
  A call \<open>name(log_normalizer, info_vec, precision, df, rank)\<close> inside the module: a
  name that is not bound raises NameError; \<open>StudentT\<close> is the class; none of the other
  names takes these five arguments.
\<close>

definition call_global :: "string \<Rightarrow> real \<Rightarrow> real list \<Rightarrow> matrix \<Rightarrow> real \<Rightarrow> real \<Rightarrow> error + studentT" where
  "call_global name lz iv P d r =
     (if name \<notin> set studentt_globals then Inl (NameError name)
      else if name = ''StudentT'' then StudentT_init lz iv P d r
      else Inl TypeError)"

definition cols_to :: "matrix \<Rightarrow> nat \<Rightarrow> matrix" where
  "cols_to M a = \<lparr>nrows = nrows M, ncols = min a (ncols M), ent = map (take a) (ent M)\<rparr>"

definition cols_from :: "matrix \<Rightarrow> nat \<Rightarrow> matrix" where
  "cols_from M a = \<lparr>nrows = nrows M, ncols = ncols M - a, ent = map (drop a) (ent M)\<rparr>"

text \<open>
  \<open>StudentT.condition\<close>. \<open>P_ab.matmul(b.unsqueeze(-1)).squeeze(-1)\<close> is the product of
  \<open>P_ab\<close> with the vector \<open>b\<close>. The \<open>return\<close> statement calls \<open>GammaGaussian\<close>.
\<close>

definition st_condition :: "studentT \<Rightarrow> real list \<Rightarrow> error + studentT" where
  "st_condition g val =
     (if \<not> length val \<le> length (st_info_vec g) then Inl AssertionError
      else
        (let n = st_dim g - length val;
             info_a = take n (st_info_vec g);
             info_b = drop n (st_info_vec g);
             P_aa = cols_to (rows_to (st_precision g) n) n;
             P_ab = cols_from (rows_to (st_precision g) n) n;
             P_bb = cols_from (rows_from (st_precision g) n) n;
             b = val
         in (case matmul_mv P_ab b of
               Inl e \<Rightarrow> Inl e
             | Inr t \<Rightarrow>
                (case ew_vec (-) info_a t of
                   Inl e \<Rightarrow> Inl e
                 | Inr iv \<Rightarrow>
                    (let precision = P_aa;
                         lz = st_log_normalizer g;
                         d = df g + real (length val);
                         r = rank g - real (length val)
                     in call_global ''GammaGaussian'' lz iv precision d r)))))"

definition unit_studentT :: studentT where
  "unit_studentT = \<lparr>st_log_normalizer = 0, st_info_vec = [0],
                     st_precision = \<lparr>nrows = 1, ncols = 1, ent = [[1]]\<rparr>, df = 3, rank = 1\<rparr>"

section \<open>Floating point values with infinities and NaN\<close>

text \<open>
  The energies of the HMC kernel are floating point scalars, and the kernel branches on
  NaN and on the infinities. A finite value is taken as a real (no rounding, no overflow);
  the special values follow IEEE 754: NaN is absorbing and compares false with
  everything, \<open>inf - inf\<close> and \<open>0 * inf\<close> are NaN.
\<close>

datatype efloat = Finite real | PInf | NInf | NaN

fun fneg :: "efloat \<Rightarrow> efloat" where
  "fneg (Finite a) = Finite (- a)"
| "fneg PInf = NInf"
| "fneg NInf = PInf"
| "fneg NaN = NaN"

fun fadd :: "efloat \<Rightarrow> efloat \<Rightarrow> efloat" where
  "fadd NaN y = NaN"
| "fadd x NaN = NaN"
| "fadd (Finite a) (Finite b) = Finite (a + b)"
| "fadd PInf NInf = NaN"
| "fadd NInf PInf = NaN"
| "fadd PInf y = PInf"
| "fadd x PInf = PInf"
| "fadd NInf y = NInf"
| "fadd x NInf = NInf"

definition fsub :: "efloat \<Rightarrow> efloat \<Rightarrow> efloat" where
  "fsub x y = fadd x (fneg y)"

fun fmul :: "efloat \<Rightarrow> efloat \<Rightarrow> efloat" where
  "fmul NaN y = NaN"
| "fmul x NaN = NaN"
| "fmul (Finite a) (Finite b) = Finite (a * b)"
| "fmul (Finite a) PInf = (if 0 < a then PInf else if a < 0 then NInf else NaN)"
| "fmul (Finite a) NInf = (if 0 < a then NInf else if a < 0 then PInf else NaN)"
| "fmul PInf (Finite b) = (if 0 < b then PInf else if b < 0 then NInf else NaN)"
| "fmul NInf (Finite b) = (if 0 < b then NInf else if b < 0 then PInf else NaN)"
| "fmul PInf PInf = PInf"
| "fmul PInf NInf = NInf"
| "fmul NInf PInf = NInf"
| "fmul NInf NInf = PInf"

fun fexp :: "efloat \<Rightarrow> efloat" where
  "fexp (Finite a) = Finite (exp a)"
| "fexp PInf = PInf"
| "fexp NInf = Finite 0"
| "fexp NaN = NaN"

text \<open>\<open>x < y\<close> on floats.\<close>

fun fless :: "efloat \<Rightarrow> efloat \<Rightarrow> bool" where
  "fless NaN y = False"
| "fless x NaN = False"
| "fless (Finite a) (Finite b) = (a < b)"
| "fless x NInf = False"
| "fless PInf y = False"
| "fless NInf y = True"
| "fless x PInf = True"

text \<open>\<open>x.clamp(max=m)\<close>: NaN stays NaN.\<close>

definition clamp_max :: "efloat \<Rightarrow> real \<Rightarrow> efloat" where
  "clamp_max x m = (if fless (Finite m) x then Finite m else x)"

text \<open>\<open>torch_isnan\<close> of pyro.util, on a scalar.\<close>

definition torch_isnan :: "efloat \<Rightarrow> bool" where
  "torch_isnan x = (case x of NaN \<Rightarrow> True | _ \<Rightarrow> False)"

definition fsum :: "efloat list \<Rightarrow> efloat" where
  "fsum xs = foldl fadd (Finite 0) xs"

text \<open>\<open>u.dot(v)\<close>: torch raises RuntimeError unless the two 1-d tensors have one size.\<close>

definition fdot :: "efloat list \<Rightarrow> efloat list \<Rightarrow> error + efloat" where
  "fdot u v =
     (if length u \<noteq> length v then Inl RuntimeError
      else Inr (fsum (map (\<lambda>(x, y). fmul x y) (zip u v))))"

subsection \<open>Doubling and halving a Python float\<close>

text \<open>
  A step size is a Python float, a binary64 number, and \<open>_find_reasonable_step_size\<close>
  multiplies it by \<open>2\<close> or by \<open>0.5\<close> any number of times, so here the range of the format
  matters. The finite floats are multiples of \<open>2\<^sup>-\<^sup>1\<^sup>0\<^sup>7\<^sup>4\<close> below \<open>2\<^sup>1\<^sup>0\<^sup>2\<^sup>4\<close> in size.

  \<open>2 * x\<close> is exact unless it reaches \<open>2\<^sup>1\<^sup>0\<^sup>2\<^sup>4\<close>, where it overflows to an infinity.
  \<open>0.5 * x\<close> is exact when \<open>x / 2\<close> is a multiple of \<open>2\<^sup>-\<^sup>1\<^sup>0\<^sup>7\<^sup>4\<close>, as it is for every float
  from \<open>2\<^sup>-\<^sup>1\<^sup>0\<^sup>2\<^sup>1\<close> up in size; otherwise the result is subnormal and is rounded to the
  nearest multiple of \<open>2\<^sup>-\<^sup>1\<^sup>0\<^sup>7\<^sup>4\<close>, a tie going to the even multiple. So \<open>0.5 * 2\<^sup>-\<^sup>1\<^sup>0\<^sup>7\<^sup>4\<close> is
  \<open>0.0\<close>.
\<close>

definition round_half_even :: "real \<Rightarrow> int" where
  "round_half_even q =
     (let f = \<lfloor>q\<rfloor>
      in if q - of_int f < 1 / 2 then f
         else if 1 / 2 < q - of_int f then f + 1
         else if even f then f else f + 1)"

definition min_subnormal :: real where
  "min_subnormal = 1 / 2 ^ 1074"

definition overflow_threshold :: real where
  "overflow_threshold = 2 ^ 1024"

definition float_twice :: "efloat \<Rightarrow> efloat" where
  "float_twice x =
     (case x of
        Finite a \<Rightarrow>
          if overflow_threshold \<le> 2 * \<bar>a\<bar> then (if 0 < a then PInf else NInf)
          else Finite (2 * a)
      | _ \<Rightarrow> x)"

definition float_half :: "efloat \<Rightarrow> efloat" where
  "float_half x =
     (case x of
        Finite a \<Rightarrow> Finite (of_int (round_half_even (a / 2 / min_subnormal)) * min_subnormal)
      | _ \<Rightarrow> x)"

section \<open>The HMC kernel (pyro/infer/mcmc/hmc.py)\<close>

text \<open>
  A site's tensor is the list of its entries (\<open>reshape(-1)\<close> and \<open>reshape(param.shape)\<close>
  keep their order, and \<open>numel()\<close> is the length). The dictionaries \<open>z\<close> and \<open>r\<close> are
  association lists from site names to tensors, with distinct names; Python sorts the
  names by code point, which is the lexicographic order of strings.
\<close>

type_synonym tensor = "efloat list"
type_synonym params = "(string \<times> tensor) list"

text \<open>
  The inverse mass matrix is a 1-d tensor (diagonal) or a 2-d tensor (dense), given by its
  rows and square.
\<close>

datatype mass = Diag tensor | Dense "tensor list"

text \<open>
  The warm-up adapter (pyro/infer/mcmc/adaptation.py) is not among the sources. The
  kernel reads the four properties below; whatever else the adapter keeps is
  \<open>adapter_state\<close>. Its methods are collaborators (see \<open>collab\<close>).
\<close>

record 'a adapter =
  step_size :: real
  inverse_mass_matrix :: mass
  adapt_step_size :: bool
  is_diag_mass :: bool
  adapter_state :: 'a

text \<open>
  The fields of the kernel that this file's functions read or write. \<open>iter_t\<close> is the
  field \<open>_t\<close>. The fields \<open>_z_last\<close>, \<open>_potential_energy_last\<close> and \<open>_z_grads_last\<close> are
  only ever assigned together (\<open>_cache\<close>, \<open>clear_cache\<close>, \<open>_reset\<close>): \<open>cache\<close> is
  \<open>None\<close> when \<open>_z_last\<close> is, and the triple otherwise. The counters are Python integers.
\<close>

record ('m, 'a) hmc =
  model :: "'m option"
  potential_fn :: "(params \<Rightarrow> efloat) option"
  trajectory_length :: real
  iter_t :: int
  accept_cnt :: int
  num_diverging :: int
  initial_params :: "params option"
  cache :: "(params \<times> efloat \<times> params option) option"
  warmup_steps :: "int option"
  adapter :: "'a adapter"

text \<open>
  The collaborators of the kernel, none of them among the sources, as parameters:
  \<open>velocity_verlet z r potential_fn inverse_mass_matrix step_size num_steps z_grads\<close>
  of pyro.ops.integrator returns \<open>(z_new, r_new, z_grads_new, potential_energy_new)\<close>;
  \<open>initialize_model\<close> of pyro.infer.mcmc.util gives the initial parameters and the
  potential function of a model; the last three are methods of the adapter. The step size
  that \<open>velocity_verlet\<close> is given is a float: \<open>sample\<close> passes the adapter's step size,
  the step size search the step size it has scaled.
\<close>

record ('m, 'a) collab =
  velocity_verlet ::
    "params \<Rightarrow> params \<Rightarrow> (params \<Rightarrow> efloat) \<Rightarrow> mass \<Rightarrow> efloat \<Rightarrow> int \<Rightarrow> params option
      \<Rightarrow> params \<times> params \<times> params \<times> efloat"
  initialize_model :: "'m \<Rightarrow> params \<times> (params \<Rightarrow> efloat)"
  adapter_configure :: "int option \<Rightarrow> mass \<Rightarrow> 'a adapter \<Rightarrow> 'a adapter"
  adapter_reset_step_size_adaptation :: "params \<Rightarrow> 'a adapter \<Rightarrow> 'a adapter"
  adapter_step :: "int \<Rightarrow> params \<Rightarrow> efloat \<Rightarrow> 'a adapter \<Rightarrow> 'a adapter"

definition direction_threshold :: real where
  "direction_threshold = ln 0.8"

definition max_sliced_energy :: real where
  "max_sliced_energy = 1000"

text \<open>\<open>HMC._reset\<close>.\<close>

definition reset :: "('m, 'a) hmc \<Rightarrow> ('m, 'a) hmc" where
  "reset k = k\<lparr>iter_t := 0, accept_cnt := 0, num_diverging := 0, initial_params := None,
               cache := None, warmup_steps := None\<rparr>"

text \<open>
  \<open>HMC.__init__\<close>; \<open>ad\<close> is the adapter that \<open>WarmupAdapter(step_size, ...)\<close> returns.
\<close>

definition HMC_init ::
  "'m option \<Rightarrow> (params \<Rightarrow> efloat) option \<Rightarrow> real \<Rightarrow> real option \<Rightarrow> int option \<Rightarrow> 'a adapter
    \<Rightarrow> error + ('m, 'a) hmc" where
  "HMC_init mdl pot stepsize traj_length n_steps ad =
     (if \<not> ((mdl = None) \<noteq> (pot = None)) then Inl ValueError
      else Inr (reset
        \<lparr>model = mdl, potential_fn = pot,
         trajectory_length =
           (case traj_length of
              Some l \<Rightarrow> l
            | None \<Rightarrow> (case n_steps of Some n \<Rightarrow> stepsize * of_int n | None \<Rightarrow> 2 * pi)),
         iter_t = 0, accept_cnt = 0, num_diverging = 0, initial_params = None,
         cache = None, warmup_steps = None, adapter = ad\<rparr>))"

text \<open>\<open>HMC._kinetic_energy\<close>; \<open>torch.cat\<close> of an empty list raises RuntimeError.\<close>

definition flatten :: "params \<Rightarrow> tensor" where
  "flatten r = concat (map snd (sort_key fst r))"

definition kinetic_energy :: "mass \<Rightarrow> params \<Rightarrow> error + efloat" where
  "kinetic_energy M r =
     (if r = [] then Inl RuntimeError
      else
        (let r_flat = flatten r
         in (case M of
               Dense rows \<Rightarrow>
                 (if \<exists>row \<in> set rows. length row \<noteq> length r_flat then Inl RuntimeError
                  else
                    (case fdot (map (\<lambda>row. fsum (map (\<lambda>(x, y). fmul x y) (zip row r_flat))) rows)
                               r_flat of
                       Inl e \<Rightarrow> Inl e
                     | Inr d \<Rightarrow> Inr (fmul (Finite 0.5) d)))
             | Diag m \<Rightarrow>
                 (case fdot m (map (\<lambda>x. fmul x x) r_flat) of
                    Inl e \<Rightarrow> Inl e
                  | Inr d \<Rightarrow> Inr (fmul (Finite 0.5) d)))))"

text \<open>
  \<open>HMC._sample_r\<close>, given the vector \<open>r_flat\<close> that \<open>pyro.sample\<close> draws. The loop over
  the sorted sites is \<open>unflatten\<close>: a slice that is shorter than its site cannot be
  reshaped (RuntimeError).
\<close>

fun unflatten :: "params \<Rightarrow> tensor \<Rightarrow> nat \<Rightarrow> error + (params \<times> nat)" where
  "unflatten [] r_flat pos = Inr ([], pos)"
| "unflatten ((name, param) # rest) r_flat pos =
     (let next_pos = pos + length param;
          piece = take (next_pos - pos) (drop pos r_flat)
      in if length piece \<noteq> length param then Inl RuntimeError
         else
           (case unflatten rest r_flat next_pos of
              Inl e \<Rightarrow> Inl e
            | Inr (r, p) \<Rightarrow> Inr ((name, piece) # r, p)))"

definition sample_r :: "('m, 'a) hmc \<Rightarrow> tensor \<Rightarrow> error + (params \<times> tensor)" where
  "sample_r k r_flat =
     (case initial_params k of
        None \<Rightarrow> Inl AttributeError
      | Some ip \<Rightarrow>
         (case unflatten (sort_key fst ip) r_flat 0 of
            Inl e \<Rightarrow> Inl e
          | Inr (r, pos) \<Rightarrow>
              if pos \<noteq> length r_flat then Inl AssertionError else Inr (r, r_flat)))"

text \<open>The property \<open>num_steps\<close>; \<open>int\<close> truncates towards zero.\<close>

definition py_int :: "real \<Rightarrow> int" where
  "py_int x = (if 0 \<le> x then \<lfloor>x\<rfloor> else \<lceil>x\<rceil>)"

definition num_steps :: "('m, 'a) hmc \<Rightarrow> error + int" where
  "num_steps k =
     (if step_size (adapter k) = 0 then Inl ZeroDivisionError
      else Inr (max 1 (py_int (trajectory_length k / step_size (adapter k)))))"

text \<open>
  One trial of \<open>HMC._find_reasonable_step_size\<close>: lines 163 to 173 for the first one and
  lines 184 to 190 inside the loop are the same statements. \<open>r_flat\<close> is the momentum
  drawn for the trial; the result is the direction, 1 or -1.
\<close>

definition trial ::
  "('m, 'a) collab \<Rightarrow> ('m, 'a) hmc \<Rightarrow> (params \<Rightarrow> efloat) \<Rightarrow> params \<Rightarrow> efloat \<Rightarrow> tensor \<Rightarrow> efloat
    \<Rightarrow> error + int" where
  "trial env k U z potential_energy r_flat stepsize =
     (case sample_r k r_flat of
        Inl e \<Rightarrow> Inl e
      | Inr (r, _) \<Rightarrow>
         (case kinetic_energy (inverse_mass_matrix (adapter k)) r of
            Inl e \<Rightarrow> Inl e
          | Inr ke \<Rightarrow>
             (let energy_current = fadd ke potential_energy;
                  (z_new, r_new, z_grads_new, potential_energy_new) =
                     velocity_verlet env z r U (inverse_mass_matrix (adapter k)) stepsize 1 None
              in (case kinetic_energy (inverse_mass_matrix (adapter k)) r_new of
                    Inl e \<Rightarrow> Inl e
                  | Inr ke_new \<Rightarrow>
                     (let energy_new = fadd ke_new potential_energy_new;
                          delta_energy = fsub energy_new energy_current
                      in Inr (if fless (Finite direction_threshold) (fneg delta_energy)
                              then 1 else - 1))))))"

text \<open>
  Line 183, \<open>step_size = step_size_scale * step_size\<close>, where \<open>step_size_scale\<close> is
  \<open>2 ** direction\<close>: the integer 2 when the direction is 1 and the float 0.5 when it is
  -1. The step size is a float, as the class documents its parameter (\<open>:param float
  step_size\<close>), so the product is a float multiplication. A kernel constructed with an
  integer step size is not covered: there the products by the integer 2 are integers of
  any size, and what becomes of them is up to \<open>velocity_verlet\<close>.
\<close>

definition scale_step :: "int \<Rightarrow> efloat \<Rightarrow> efloat" where
  "scale_step direction stepsize =
     (if direction = 1 then float_twice stepsize else float_half stepsize)"

text \<open>
  The \<open>while\<close> loop of \<open>_find_reasonable_step_size\<close>; \<open>D t step_size\<close> is the trial of
  iteration \<open>t\<close>. The loop has no bound on its iterations, so it is a partial function:
  \<open>None\<close> when it does not return.
\<close>

partial_function (option) search_loop ::
  "(int \<Rightarrow> efloat \<Rightarrow> error + int) \<Rightarrow> int \<Rightarrow> int \<Rightarrow> int \<Rightarrow> efloat \<Rightarrow> (error + efloat) option" where
  "search_loop D direction direction_new t stepsize =
     (if direction_new = direction then
        (case D (t + 1) (scale_step direction stepsize) of
           Inl e \<Rightarrow> Some (Inl e)
         | Inr d \<Rightarrow> search_loop D direction d (t + 1) (scale_step direction stepsize))
      else Some (Inr stepsize))"

text \<open>
  \<open>HMC._find_reasonable_step_size\<close>; \<open>draws t\<close> is the momentum that
  \<open>pyro.sample("r_presample_t", ...)\<close> returns. It starts from the adapter's step size,
  a finite float.
\<close>

definition find_reasonable_step_size ::
  "('m, 'a) collab \<Rightarrow> (int \<Rightarrow> tensor) \<Rightarrow> params \<Rightarrow> ('m, 'a) hmc \<Rightarrow> (error + efloat) option" where
  "find_reasonable_step_size env draws z k =
     (case potential_fn k of
        None \<Rightarrow> Some (Inl TypeError)
      | Some U \<Rightarrow>
         (let potential_energy = U z
          in (case trial env k U z potential_energy (draws 0) (Finite (step_size (adapter k))) of
                Inl e \<Rightarrow> Some (Inl e)
              | Inr direction \<Rightarrow>
                  search_loop (\<lambda>t s. trial env k U z potential_energy (draws t) s)
                    direction direction 0 (Finite (step_size (adapter k))))))"

text \<open>
  \<open>HMC.setup\<close> with \<open>_initialize_model_properties\<close> and \<open>_initialize_adapter\<close>. A
  potential function is defined on dictionaries; called on \<open>None\<close> (no initial
  parameters) it fails.
\<close>

definition initialize_adapter :: "('m, 'a) collab \<Rightarrow> params \<Rightarrow> ('m, 'a) hmc \<Rightarrow> ('m, 'a) hmc" where
  "initialize_adapter env ip k =
     (let mass_matrix_size = sum_list (map (\<lambda>(name, p). length p) ip);
          initial_mass_matrix =
            (if is_diag_mass (adapter k) then Diag (replicate mass_matrix_size (Finite 1))
             else Dense (map (\<lambda>i. map (\<lambda>j. if i = j then Finite 1 else Finite 0)
                                      [0..<mass_matrix_size]) [0..<mass_matrix_size]));
          ad = adapter_configure env (warmup_steps k) initial_mass_matrix (adapter k);
          ad = (if adapt_step_size ad then adapter_reset_step_size_adaptation env ip ad else ad)
      in k\<lparr>adapter := ad\<rparr>)"

definition hmc_setup :: "('m, 'a) collab \<Rightarrow> int \<Rightarrow> ('m, 'a) hmc \<Rightarrow> (error + unit) \<times> ('m, 'a) hmc" where
  "hmc_setup env warmup k =
     (let k = k\<lparr>warmup_steps := Some warmup\<rparr>;
          k = (case model k of
                 None \<Rightarrow> k
               | Some m \<Rightarrow>
                  (let (init_params, pot) = initialize_model env m
                   in k\<lparr>potential_fn := Some pot,
                        initial_params :=
                          (case initial_params k of None \<Rightarrow> Some init_params | Some p \<Rightarrow> Some p)\<rparr>))
      in (case potential_fn k of
            None \<Rightarrow> (Inl TypeError, k)
          | Some U \<Rightarrow>
             (case initial_params k of
                None \<Rightarrow> (Inl TypeError, k)
              | Some ip \<Rightarrow>
                 (let potential_energy = U ip;
                      k = k\<lparr>cache := Some (ip, potential_energy, None)\<rparr>
                  in if ip \<noteq> [] then (Inr (), initialize_adapter env ip k) else (Inr (), k)))))"

text \<open>\<open>cleanup\<close>, \<open>clear_cache\<close> and the setter of \<open>initial_params\<close>.\<close>

definition cleanup :: "('m, 'a) hmc \<Rightarrow> ('m, 'a) hmc" where
  "cleanup k = reset k"

definition clear_cache :: "('m, 'a) hmc \<Rightarrow> ('m, 'a) hmc" where
  "clear_cache k = k\<lparr>cache := None\<rparr>"

definition set_initial_params :: "params \<Rightarrow> ('m, 'a) hmc \<Rightarrow> ('m, 'a) hmc" where
  "set_initial_params p k = k\<lparr>initial_params := Some p\<rparr>"

text \<open>
  \<open>HMC.sample\<close> in three parts. \<open>trajectory\<close> is lines 295 to 308: it draws the momentum,
  integrates and returns \<open>delta_energy\<close> with the proposal. The comparison
  \<open>self._t < self._warmup_steps\<close> of line 300 raises TypeError when \<open>_warmup_steps\<close> is
  \<open>None\<close>.
\<close>

definition trajectory ::
  "('m, 'a) collab \<Rightarrow> tensor \<Rightarrow> params \<Rightarrow> efloat \<Rightarrow> params option \<Rightarrow> ('m, 'a) hmc
    \<Rightarrow> error + (efloat \<times> params \<times> params \<times> efloat)" where
  "trajectory env r_flat z potential_energy z_grads k =
     (case sample_r k r_flat of
        Inl e \<Rightarrow> Inl e
      | Inr (r, _) \<Rightarrow>
         (case kinetic_energy (inverse_mass_matrix (adapter k)) r of
            Inl e \<Rightarrow> Inl e
          | Inr ke \<Rightarrow>
             (let energy_current = fadd ke potential_energy
              in (case warmup_steps k of
                    None \<Rightarrow> Inl TypeError
                  | Some w \<Rightarrow>
                     (case num_steps k of
                        Inl e \<Rightarrow> Inl e
                      | Inr n \<Rightarrow>
                         (case potential_fn k of
                            None \<Rightarrow> Inl TypeError
                          | Some U \<Rightarrow>
                             (let (z_new, r_new, z_grads_new, potential_energy_new) =
                                    velocity_verlet env z r U (inverse_mass_matrix (adapter k))
                                      (Finite (step_size (adapter k))) n z_grads
                              in (case kinetic_energy (inverse_mass_matrix (adapter k)) r_new of
                                    Inl e \<Rightarrow> Inl e
                                  | Inr ke_new \<Rightarrow>
                                     (let energy_proposal = fadd ke_new potential_energy_new;
                                          delta_energy = fsub energy_proposal energy_current
                                      in Inr (delta_energy, z_new, z_grads_new,
                                              potential_energy_new))))))))))"

text \<open>Line 311: only NaN is replaced.\<close>

definition nan_to_inf :: "efloat \<Rightarrow> efloat" where
  "nan_to_inf delta_energy = (if torch_isnan delta_energy then PInf else delta_energy)"

text \<open>
  \<open>metropolis\<close> is lines 311 to 328, for a kernel whose \<open>_warmup_steps\<close> is \<open>w\<close>; \<open>rand\<close> is
  the uniform variate that \<open>pyro.sample\<close> draws. It returns \<open>z.copy()\<close> and the kernel.
\<close>

definition metropolis ::
  "('m, 'a) collab \<Rightarrow> efloat \<Rightarrow> int \<Rightarrow> params \<Rightarrow> efloat \<times> params \<times> params \<times> efloat \<Rightarrow> ('m, 'a) hmc
    \<Rightarrow> params \<times> ('m, 'a) hmc" where
  "metropolis env rand w z prop k =
     (let (delta_energy, z_new, z_grads_new, potential_energy_new) = prop;
          delta_energy = nan_to_inf delta_energy;
          k = (if fless (Finite max_sliced_energy) delta_energy \<and> iter_t k \<ge> w
               then k\<lparr>num_diverging := num_diverging k + 1\<rparr> else k);
          accept_prob = clamp_max (fexp (fneg delta_energy)) 1;
          (z, k) = (if fless rand accept_prob
                    then (z_new, k\<lparr>accept_cnt := accept_cnt k + 1,
                                   cache := Some (z_new, potential_energy_new, Some z_grads_new)\<rparr>)
                    else (z, k));
          k = (if iter_t k < w
               then k\<lparr>adapter := adapter_step env (iter_t k) z accept_prob (adapter k)\<rparr> else k);
          k = k\<lparr>iter_t := iter_t k + 1\<rparr>
      in (z, k))"

text \<open>
  \<open>sample\<close> returns the outcome of the call and the kernel as the call leaves it: an
  exception keeps the assignments made before it. (Where \<open>trajectory\<close> returns,
  \<open>_warmup_steps\<close> is not \<open>None\<close>.)
\<close>

definition sample_from ::
  "('m, 'a) collab \<Rightarrow> tensor \<Rightarrow> efloat \<Rightarrow> params \<Rightarrow> efloat \<Rightarrow> params option \<Rightarrow> ('m, 'a) hmc
    \<Rightarrow> (error + params) \<times> ('m, 'a) hmc" where
  "sample_from env r_flat rand z potential_energy z_grads k =
     (case trajectory env r_flat z potential_energy z_grads k of
        Inl e \<Rightarrow> (Inl e, k)
      | Inr prop \<Rightarrow>
         (case warmup_steps k of
            None \<Rightarrow> (Inl TypeError, k)
          | Some w \<Rightarrow>
             (let (z', k') = metropolis env rand w z prop k
              in (Inr z', k'))))"

definition sample ::
  "('m, 'a) collab \<Rightarrow> tensor \<Rightarrow> efloat \<Rightarrow> params \<Rightarrow> ('m, 'a) hmc
    \<Rightarrow> (error + params) \<times> ('m, 'a) hmc" where
  "sample env r_flat rand ps k =
     (case cache k of
        None \<Rightarrow>
          (case potential_fn k of
             None \<Rightarrow> (Inl TypeError, k)
           | Some U \<Rightarrow>
              (let z = ps;
                   potential_energy = U z;
                   k = k\<lparr>cache := Some (z, potential_energy, None)\<rparr>
               in sample_from env r_flat rand z potential_energy None k))
      | Some (z, potential_energy, z_grads) \<Rightarrow>
          if length z = 0
          then (Inr ps, k\<lparr>accept_cnt := accept_cnt k + 1, iter_t := iter_t k + 1\<rparr>)
          else sample_from env r_flat rand z potential_energy z_grads k)"

text \<open>
  \<open>HMC.diagnostics\<close>: the step size, the acceptance rate and the number of divergences,
  before they are formatted. \<open>self._accept_cnt / self._t\<close> divides two integers.
\<close>

definition diagnostics :: "('m, 'a) hmc \<Rightarrow> (error + real \<times> real \<times> int) \<times> ('m, 'a) hmc" where
  "diagnostics k =
     (if iter_t k = 0 then (Inl ZeroDivisionError, k)
      else (Inr (step_size (adapter k), of_int (accept_cnt k) / of_int (iter_t k),
                 num_diverging k), k))"

text \<open>A chain driver's calls, and the kernel after a sequence of them.\<close>

datatype call =
    Setup int
  | Sample tensor efloat params
  | Diagnostics
  | Cleanup
  | ClearCache
  | SetInitialParams params

fun do_call :: "('m, 'a) collab \<Rightarrow> call \<Rightarrow> ('m, 'a) hmc \<Rightarrow> ('m, 'a) hmc" where
  "do_call env (Setup w) k = snd (hmc_setup env w k)"
| "do_call env (Sample r_flat rand ps) k = snd (sample env r_flat rand ps k)"
| "do_call env Diagnostics k = snd (diagnostics k)"
| "do_call env Cleanup k = cleanup k"
| "do_call env ClearCache k = clear_cache k"
| "do_call env (SetInitialParams p) k = set_initial_params p k"

fun run :: "('m, 'a) collab \<Rightarrow> call list \<Rightarrow> ('m, 'a) hmc \<Rightarrow> ('m, 'a) hmc" where
  "run env [] k = k"
| "run env (c # cs) k = run env cs (do_call env c k)"

text \<open>The bound of the HMC acceptance counter.\<close>

definition counters_ok :: "('m, 'a) hmc \<Rightarrow> bool" where
  "counters_ok k = (0 \<le> accept_cnt k \<and> accept_cnt k \<le> iter_t k)"

section \<open>A concrete chain\<close>

text \<open>
  Concrete collaborators, for the statements below that evaluate the kernel.

  Modelled from the spec: \<open>velocity_verlet\<close> (pyro/ops/integrator.py is not among the
  sources), the leapfrog integrator "alternating half-step momentum and full-step position
  updates", on the flattened position and momentum. \<open>grad\<close> is the gradient of the
  potential function (differentiation is a collaborator too); each step is a half-step of
  the momentum against the gradient, a full step of the position along the gradient of the
  kinetic energy, and another half-step of the momentum at the new position. The kernel
  calls it with \<open>num_steps \<ge> 1\<close>.
\<close>

definition kinetic_grad :: "mass \<Rightarrow> tensor \<Rightarrow> tensor" where
  "kinetic_grad M r_flat =
     (case M of
        Diag m \<Rightarrow> map (\<lambda>(x, y). fmul x y) (zip m r_flat)
      | Dense rows \<Rightarrow> map (\<lambda>row. fsum (map (\<lambda>(x, y). fmul x y) (zip row r_flat))) rows)"

fun split_like :: "params \<Rightarrow> tensor \<Rightarrow> params" where
  "split_like [] v = []"
| "split_like ((name, p) # rest) v = (name, take (length p) v) # split_like rest (drop (length p) v)"

text \<open>\<open>y + a * x\<close>, entry by entry.\<close>

definition axpy :: "efloat \<Rightarrow> tensor \<Rightarrow> tensor \<Rightarrow> tensor" where
  "axpy a x y = map (\<lambda>(xi, yi). fadd yi (fmul a xi)) (zip x y)"

fun leapfrog ::
  "nat \<Rightarrow> (params \<Rightarrow> params) \<Rightarrow> params \<Rightarrow> mass \<Rightarrow> efloat \<Rightarrow> tensor \<times> tensor \<times> tensor
    \<Rightarrow> tensor \<times> tensor \<times> tensor" where
  "leapfrog 0 grad shape M eps (z, r, g) = (z, r, g)"
| "leapfrog (Suc n) grad shape M eps (z, r, g) =
     (let half_eps = fmul (Finite (1 / 2)) eps;
          r_half = axpy (fneg half_eps) g r;
          z_new = axpy eps (kinetic_grad M r_half) z;
          g_new = flatten (grad (split_like shape z_new));
          r_new = axpy (fneg half_eps) g_new r_half
      in leapfrog n grad shape M eps (z_new, r_new, g_new))"

definition leapfrog_verlet ::
  "(params \<Rightarrow> params) \<Rightarrow> params \<Rightarrow> params \<Rightarrow> (params \<Rightarrow> efloat) \<Rightarrow> mass \<Rightarrow> efloat \<Rightarrow> int
    \<Rightarrow> params option \<Rightarrow> params \<times> params \<times> params \<times> efloat" where
  "leapfrog_verlet grad z r U M eps n z_grads =
     (let shape = sort_key fst z;
          g0 = (case z_grads of None \<Rightarrow> flatten (grad z) | Some g \<Rightarrow> flatten g);
          (zf, rf, gf) = leapfrog (nat n) grad shape M eps (flatten z, flatten r, g0);
          z_new = split_like shape zf
      in (z_new, split_like shape rf, split_like shape gf, U z_new))"

text \<open>
  Modelled from the spec: the adapter (pyro/infer/mcmc/adaptation.py is not among the
  sources) with both adaptations switched off: \<open>configure\<close> "seeds the adapter's mass
  matrix" with the matrix it is given, and \<open>step\<close> changes nothing.
\<close>

definition leapfrog_env :: "(params \<Rightarrow> params) \<Rightarrow> (unit, unit) collab" where
  "leapfrog_env grad =
     \<lparr>velocity_verlet = leapfrog_verlet grad,
      initialize_model = (\<lambda>m. ([], \<lambda>z. Finite 0)),
      adapter_configure = (\<lambda>w M ad. ad\<lparr>inverse_mass_matrix := M\<rparr>),
      adapter_reset_step_size_adaptation = (\<lambda>z ad. ad),
      adapter_step = (\<lambda>t z p ad. ad)\<rparr>"

text \<open>
  The gradient of a piecewise constant potential function is zero wherever it is
  evaluated; \<open>ex_env\<close> is the collaborators for such a potential.
\<close>

definition zero_grad :: "params \<Rightarrow> params" where
  "zero_grad z = map (\<lambda>(name, p). (name, map (\<lambda>x. Finite 0) p)) z"

definition ex_env :: "(unit, unit) collab" where
  "ex_env = leapfrog_env zero_grad"

definition ex_adapter :: "unit adapter" where
  "ex_adapter = \<lparr>step_size = 1, inverse_mass_matrix = Diag [], adapt_step_size = False,
                  is_diag_mass = True, adapter_state = ()\<rparr>"

text \<open>A model with the single scalar site \<open>x\<close>, here at the value \<open>a\<close>.\<close>

definition site_x :: "real \<Rightarrow> params" where
  "site_x a = [(''x'', [Finite a])]"

text \<open>
  \<open>new_kernel U\<close> is the kernel that \<open>HMC(potential_fn=U, step_size=1.0,
  trajectory_length=1)\<close> constructs, and \<open>ex_kernel U\<close> is that kernel after
  \<open>initial_params = {x: 0}\<close> and \<open>setup(0)\<close> (lemmas \<open>new_kernel_init\<close> and
  \<open>new_kernel_setup\<close>).
\<close>

definition new_kernel :: "(params \<Rightarrow> efloat) \<Rightarrow> (unit, unit) hmc" where
  "new_kernel U =
     \<lparr>model = None, potential_fn = Some U, trajectory_length = 1, iter_t = 0, accept_cnt = 0,
      num_diverging = 0, initial_params = None, cache = None, warmup_steps = None,
      adapter = ex_adapter\<rparr>"

definition ex_kernel :: "(params \<Rightarrow> efloat) \<Rightarrow> (unit, unit) hmc" where
  "ex_kernel U =
     \<lparr>model = None, potential_fn = Some U, trajectory_length = 1, iter_t = 0, accept_cnt = 0,
      num_diverging = 0, initial_params = Some (site_x 0), cache = Some (site_x 0, U (site_x 0), None),
      warmup_steps = Some 0, adapter = ex_adapter\<lparr>inverse_mass_matrix := Diag [Finite 1]\<rparr>\<rparr>"

text \<open>
  Four piecewise constant potential functions: constant; NaN away from the starting point;
  minus infinity away from the starting point; a step of height 10 beyond \<open>x = 1\<close>.
\<close>

definition flat_potential :: "params \<Rightarrow> efloat" where
  "flat_potential z = Finite 0"

definition nan_potential :: "params \<Rightarrow> efloat" where
  "nan_potential z = (if z = site_x 0 then Finite 0 else NaN)"

definition ninf_potential :: "params \<Rightarrow> efloat" where
  "ninf_potential z = (if z = site_x 0 then Finite 0 else NInf)"


text \<open>A potential function that is NaN everywhere.\<close>

definition nowhere_potential :: "params \<Rightarrow> efloat" where
  "nowhere_potential z = NaN"

text \<open>Momentum draws that are all 1.\<close>

definition unit_draws :: "int \<Rightarrow> tensor" where
  "unit_draws t = [Finite 1]"





section \<open>Properties of GaussianS\<close>

lemma unit_gaussian_init:
  "GaussianS_init 0 [0] \<lparr>nrows = 1, ncols = 1, ent = [[1]]\<rparr> = Inr unit_gaussian"
  by (simp add: GaussianS_init_def unit_gaussian_def)

text \<open>
  C1. On the standard one-dimensional potential (log normalizer 0, information vector 0,
  square-root precision 1) at the value 2, \<open>log_density\<close> returns \<open>-4\<close>, whereas the
  documented formula \<open>-1/2 v\<^sup>T P v + v\<^sup>T info_vec + log_normalizer\<close> gives \<open>-2\<close>: the
  quadratic term is multiplied by the sum of the entries of the value.
\<close>

theorem log_density_unit_at_2:
  "log_density unit_gaussian [2] = Inr (- 4) \<and> spec_log_density unit_gaussian [2] = Inr (- 2)"
  by (simp add: log_density_def spec_log_density_def precision_def unit_gaussian_def
      matmul_vm_def matmul_mv_def matmul_mm_def transpose_m_def column_def dotp_def
      ew_vec_def bdim_def bget_def)

text \<open>
  What \<open>log_density\<close> computes on every non-empty value of the size of the potential:
  the quadratic term \<open>-1/2 |v\<^sup>T prec_sqrt|\<^sup>2\<close> times the sum of the entries of the value. On
  the empty value it returns the log normalizer.
\<close>

lemma bget_nth: "i < length xs \<Longrightarrow> bget xs i = xs ! i"
  by (auto simp add: bget_def)

lemma ew_vec_same_length:
  assumes "length u = length v"
  shows "ew_vec f u v = Inr (map (\<lambda>(x, y). f x y) (zip u v))"
proof -
  have "map (\<lambda>i. f (bget u i) (bget v i)) [0..<length v] = map (\<lambda>(x, y). f x y) (zip u v)"
    using assms by (intro nth_equalityI) (simp_all add: bget_nth)
  with assms show ?thesis by (simp add: ew_vec_def bdim_def)
qed

lemma sum_list_scaled_shift:
  assumes "length u = length v"
  shows "sum_list (map (\<lambda>(x, y). x * y) (zip u (map (\<lambda>w. c + w) v)))
           = c * sum_list u + dotp u v"
  using assms
  by (induction u v rule: list_induct2) (simp_all add: dotp_def algebra_simps)

lemma log_density_code:
  assumes "val \<noteq> []" and "nrows (prec_sqrt g) = length val"
    and "length (info_vec g) = length val"
  shows "log_density g val
           = Inr ((- 1/2) * sum_list (map (\<lambda>j. (dotp val (column (prec_sqrt g) j)) ^ 2)
                                          [0..<ncols (prec_sqrt g)])
                    * sum_list val
                  + dotp val (info_vec g) + log_normalizer g)"
  using assms
  by (simp add: log_density_def matmul_vm_def Let_def ew_vec_same_length sum_list_scaled_shift
      comp_def)

lemma log_density_empty:
  "log_density g [] = Inr (log_normalizer g)"
  by (simp add: log_density_def)

lemma empty_gaussian_init:
  "GaussianS_init 0 [] \<lparr>nrows = 0, ncols = 0, ent = []\<rparr> = Inr empty_gaussian"
  by (simp add: GaussianS_init_def empty_gaussian_def)

lemma GaussianS_init_square:
  "GaussianS_init lz iv ps = Inr r \<Longrightarrow> nrows ps = ncols ps"
  by (simp add: GaussianS_init_def split: if_splits)

text \<open>
  C2. The sum of the one-dimensional standard potential with itself raises
  AssertionError: \<open>__add__\<close> hands \<open>__init__\<close> the factor
  \<open>pad(P1, (0, 1)) + pad(P2, (1, 0))\<close> of shape \<open>(1, 2)\<close>, and \<open>__init__\<close> asserts the
  shape \<open>(1, 1)\<close>. No GaussianS is returned, so there is no log density to compare.
\<close>

theorem add_unit_raises:
  "add unit_gaussian unit_gaussian = Inl AssertionError"
  by (simp add: add_def unit_gaussian_def dim_def ew_vec_def ew_mat_def bdim_def pad_m_def
      GaussianS_init_def)

text \<open>
  The same happens for every pair of potentials that \<open>__init__\<close> accepted, of equal
  dimension at least 1; only potentials of dimension 0 can be added.
\<close>

lemma add_raises:
  assumes "nrows (prec_sqrt g) = dim g" and "ncols (prec_sqrt g) = dim g"
    and "nrows (prec_sqrt h) = dim h" and "ncols (prec_sqrt h) = dim h"
    and "dim g = dim h" and "0 < dim g"
  shows "\<exists>e. add g h = Inl e"
  using assms
  by (auto simp add: add_def ew_vec_def ew_mat_def bdim_def pad_m_def GaussianS_init_def dim_def
      split: sum.splits option.splits if_splits)

lemma add_empty:
  "add empty_gaussian empty_gaussian = Inr empty_gaussian"
  by (simp add: add_def empty_gaussian_def dim_def ew_vec_def ew_mat_def bdim_def pad_m_def
      GaussianS_init_def pad_def)

text \<open>
  C3. \<open>gaussian_tensordotS\<close> returns no potential. Contracting the one variable shared by
  two one-dimensional standard potentials (\<open>dims = 1\<close>) raises AssertionError in
  \<open>__add__\<close>; on two potentials of dimension 0 (\<open>dims = 0\<close>), where padding and addition
  succeed, \<open>event_permute\<close> raises NotImplementedError.
\<close>

theorem tensordot_raises:
  "gaussian_tensordotS schur unit_gaussian unit_gaussian 1 = Inl AssertionError
   \<and> gaussian_tensordotS schur empty_gaussian empty_gaussian 0 = Inl NotImplementedError"
  by (simp add: gaussian_tensordotS_def event_pad_def event_permute_def add_def
      unit_gaussian_def empty_gaussian_def dim_def pad_def pad_m_def
      ew_vec_def ew_mat_def bdim_def GaussianS_init_def)

text \<open>On every input the result is an exception: \<open>marginalize\<close> is never reached.\<close>

lemma tensordot_never_returns:
  "\<exists>e. gaussian_tensordotS schur x y dims = Inl e"
  by (auto simp add: gaussian_tensordotS_def Let_def event_permute_def split: sum.splits)

text \<open>
  C4. Conditioning the one-dimensional standard potential on the value 2 (split point
  \<open>k = 0\<close>) raises AssertionError: the kept factor \<open>prec_sqrt[:0, :]\<close> has shape
  \<open>(0, 1)\<close> and \<open>__init__\<close> asserts \<open>(0, 0)\<close>. The right-hand side of the round trip,
  \<open>g.log_density(x)\<close>, is the number \<open>-4\<close>.
\<close>

theorem condition_unit_raises:
  "condition unit_gaussian [2] = Inl AssertionError \<and> log_density unit_gaussian [2] = Inr (- 4)"
  by (simp add: condition_def unit_gaussian_def dim_def rows_to_def rows_from_def
      matmul_vm_def matmul_mv_def ew_vec_def bdim_def bget_def column_def dotp_def
      GaussianS_init_def log_density_def)

text \<open>
  For every potential whose factor has as many columns as the potential has variables,
  conditioning on a non-empty value returns no potential.
\<close>

lemma condition_never_returns:
  assumes "ncols (prec_sqrt g) = dim g" and "0 < length val"
  shows "\<exists>e. condition g val = Inl e"
proof (cases "condition g val")
  case (Inl e)
  then show ?thesis by blast
next
  case (Inr r)
  then have le: "length val \<le> dim g"
    by (simp add: condition_def dim_def split: if_splits)
  from Inr obtain lz iv
    where "GaussianS_init lz iv (rows_to (prec_sqrt g) (dim g - length val)) = Inr r"
    by (auto simp add: condition_def Let_def split: if_splits sum.splits)
  then have "nrows (rows_to (prec_sqrt g) (dim g - length val))
             = ncols (rows_to (prec_sqrt g) (dim g - length val))"
    by (rule GaussianS_init_square)
  then have "min (dim g - length val) (nrows (prec_sqrt g)) = dim g"
    using assms(1) by (simp add: rows_to_def)
  with le assms(2) have False by arith
  then show ?thesis ..
qed

section \<open>Properties of StudentT\<close>

text \<open>
  C5. Conditioning the one-dimensional Student-t potential with \<open>df = 3\<close> and
  \<open>rank = 1\<close> on a value raises NameError, for the observed value \<open>[1]\<close> as for the empty
  one: the name \<open>GammaGaussian\<close> of the \<open>return\<close> statement is bound nowhere in the module.
\<close>

theorem st_condition_unit_raises:
  "st_condition unit_studentT [1] = Inl (NameError ''GammaGaussian'')
   \<and> st_condition unit_studentT [] = Inl (NameError ''GammaGaussian'')"
  by (simp add: st_condition_def unit_studentT_def st_dim_def rows_to_def rows_from_def
      cols_to_def cols_from_def matmul_mv_def ew_vec_def bdim_def call_global_def
      studentt_globals_def)

text \<open>No call of \<open>StudentT.condition\<close> returns a potential.\<close>

lemma st_condition_never_returns:
  "\<exists>e. st_condition g val = Inl e"
  by (auto simp add: st_condition_def Let_def call_global_def studentt_globals_def
      split: sum.splits)

section \<open>Properties of the HMC kernel\<close>

subsection \<open>Floats and the concrete chain\<close>

lemma fadd_NaN_right [simp]: "fadd x NaN = NaN"
  by (cases x) simp_all

lemma fsub_NaN [simp]: "fsub NaN y = NaN" "fsub x NaN = NaN"
  by (simp_all add: fsub_def)

lemma direction_threshold_neg: "direction_threshold < 0"
  by (simp add: direction_threshold_def)


lemma site_x_eq [simp]: "(site_x a = site_x b) = (a = b)"
  by (simp add: site_x_def)

lemma site_x_nonempty [simp]: "site_x a \<noteq> []" "length (site_x a) = 1"
  by (simp_all add: site_x_def)

lemma new_kernel_init:
  "HMC_init None (Some U) 1 (Some 1) None ex_adapter = Inr (new_kernel U)"
  by (simp add: HMC_init_def reset_def new_kernel_def)

lemma new_kernel_setup:
  "run ex_env [SetInitialParams (site_x 0), Setup 0] (new_kernel U) = ex_kernel U"
  by (simp add: new_kernel_def set_initial_params_def hmc_setup_def initialize_adapter_def
      ex_env_def leapfrog_env_def ex_adapter_def ex_kernel_def site_x_def Let_def)

lemma ex_kernel_fields:
  "model (ex_kernel U) = None" "potential_fn (ex_kernel U) = Some U"
  "trajectory_length (ex_kernel U) = 1" "iter_t (ex_kernel U) = 0"
  "accept_cnt (ex_kernel U) = 0" "num_diverging (ex_kernel U) = 0"
  "initial_params (ex_kernel U) = Some (site_x 0)"
  "cache (ex_kernel U) = Some (site_x 0, U (site_x 0), None)"
  "warmup_steps (ex_kernel U) = Some 0"
  "step_size (adapter (ex_kernel U)) = 1"
  "inverse_mass_matrix (adapter (ex_kernel U)) = Diag [Finite 1]"
  by (simp_all add: ex_kernel_def ex_adapter_def)

lemma ex_sample_r:
  "sample_r (ex_kernel U) [Finite a] = Inr (site_x a, [Finite a])"
  by (simp add: sample_r_def ex_kernel_fields site_x_def)

lemma ex_kinetic:
  "kinetic_energy (Diag [Finite 1]) (site_x a) = Inr (Finite (a * a / 2))"
  by (simp add: kinetic_energy_def site_x_def flatten_def fdot_def fsum_def)

lemma ex_verlet:
  "velocity_verlet ex_env (site_x a) (site_x b) U (Diag [Finite 1]) (Finite eps) 1 None
     = (site_x (a + eps * b), site_x b, site_x 0, U (site_x (a + eps * b)))"
  by (simp add: ex_env_def leapfrog_env_def leapfrog_verlet_def zero_grad_def
      site_x_def flatten_def kinetic_grad_def axpy_def Let_def)

lemma ex_num_steps: "num_steps (ex_kernel U) = Inr 1"
  by (simp add: num_steps_def ex_kernel_fields py_int_def)

lemma ex_trajectory:
  "trajectory ex_env [Finite 1] (site_x 0) pe None (ex_kernel U)
     = Inr (fsub (fadd (Finite (1/2)) (U (site_x 1))) (fadd (Finite (1/2)) pe),
            site_x 1, site_x 0, U (site_x 1))"
  by (simp add: trajectory_def ex_sample_r ex_kinetic ex_num_steps ex_verlet ex_kernel_fields)

lemma ex_trial:
  "trial ex_env (ex_kernel U) U (site_x 0) pe [Finite a] (Finite s)
     = Inr (if fless (Finite direction_threshold)
                 (fneg (fsub (fadd (Finite (a * a / 2)) (U (site_x (s * a))))
                             (fadd (Finite (a * a / 2)) pe)))
            then 1 else - 1)"
  by (simp add: trial_def ex_sample_r ex_kinetic ex_kernel_fields ex_verlet)

lemma ex_sample_flat:
  "sample ex_env [Finite 1] (Finite (1/2)) (site_x 0) (ex_kernel flat_potential)
     = (Inr (site_x 1),
        (ex_kernel flat_potential)
          \<lparr>accept_cnt := 1, cache := Some (site_x 1, Finite 0, Some (site_x 0)), iter_t := 1\<rparr>)"
  by (simp add: ex_trajectory sample_def sample_from_def ex_kernel_fields
      flat_potential_def fsub_def nan_to_inf_def torch_isnan_def
      metropolis_def clamp_max_def max_sliced_energy_def Let_def)

subsection \<open>One call of sample\<close>

text \<open>
  Where the momentum drawn fits the initial parameters, the kinetic energies can be
  computed and the step size is not zero, \<open>trajectory\<close> returns the energy difference of
  the proposal, and \<open>sample\<close> is \<open>metropolis\<close> on it. The current state \<open>(z, pe, zg)\<close> is
  the cache, or \<open>(params, potential_fn(params), None)\<close> when the cache is empty.
\<close>

lemma trajectory_value:
  assumes "potential_fn k = Some U" and "warmup_steps k = Some w" and "num_steps k = Inr n"
    and "sample_r k r_flat = Inr (r, rf)"
    and "kinetic_energy (inverse_mass_matrix (adapter k)) r = Inr ke"
    and "velocity_verlet env z r U (inverse_mass_matrix (adapter k)) (Finite (step_size (adapter k)))
           n zg
           = (z_new, r_new, g_new, pe_new)"
    and "kinetic_energy (inverse_mass_matrix (adapter k)) r_new = Inr ke_new"
  shows "trajectory env r_flat z pe zg (k\<lparr>cache := c\<rparr>)
           = Inr (fsub (fadd ke_new pe_new) (fadd ke pe), z_new, g_new, pe_new)"
proof -
  have "sample_r (k\<lparr>cache := c\<rparr>) r_flat = sample_r k r_flat"
    by (simp add: sample_r_def)
  moreover have "num_steps (k\<lparr>cache := c\<rparr>) = num_steps k"
    by (simp add: num_steps_def)
  ultimately show ?thesis
    using assms by (simp add: trajectory_def)
qed

lemma sample_value:
  assumes "potential_fn k = Some U" and "warmup_steps k = Some w" and "num_steps k = Inr n"
    and "sample_r k r_flat = Inr (r, rf)"
    and "kinetic_energy (inverse_mass_matrix (adapter k)) r = Inr ke"
    and "velocity_verlet env z r U (inverse_mass_matrix (adapter k)) (Finite (step_size (adapter k)))
           n zg
           = (z_new, r_new, g_new, pe_new)"
    and "kinetic_energy (inverse_mass_matrix (adapter k)) r_new = Inr ke_new"
    and "cache k = Some (z, pe, zg) \<and> z \<noteq> [] \<or> cache k = None \<and> (z, pe, zg) = (ps, U ps, None)"
    and "metropolis env rand w z (fsub (fadd ke_new pe_new) (fadd ke pe), z_new, g_new, pe_new)
           (k\<lparr>cache := Some (z, pe, zg)\<rparr>) = (z', k')"
  shows "sample env r_flat rand ps k = (Inr z', k')"
proof -
  have t: "trajectory env r_flat z pe zg (k\<lparr>cache := Some (z, pe, zg)\<rparr>)
           = Inr (fsub (fadd ke_new pe_new) (fadd ke pe), z_new, g_new, pe_new)"
    using assms(1-7) by (rule trajectory_value)
  from assms(8) show ?thesis
  proof
    assume c: "cache k = Some (z, pe, zg) \<and> z \<noteq> []"
    then have "k\<lparr>cache := Some (z, pe, zg)\<rparr> = k" by simp
    with t assms(9) c assms(2) show ?thesis
      by (simp add: sample_def sample_from_def)
  next
    assume c: "cache k = None \<and> (z, pe, zg) = (ps, U ps, None)"
    with t assms(9) assms(1,2) show ?thesis
      by (simp add: sample_def sample_from_def Let_def)
  qed
qed

lemma metropolis_reject:
  assumes "nan_to_inf d = PInf" and "\<not> fless rand (Finite 0)"
    and "metropolis env rand w z (d, zn, gn, pn) k = (z', k')"
  shows "z' = z \<and> accept_cnt k' = accept_cnt k \<and> cache k' = cache k
         \<and> iter_t k' = iter_t k + 1
         \<and> num_diverging k' = num_diverging k + (if w \<le> iter_t k then 1 else 0)"
  using assms
  by (auto simp add: metropolis_def Let_def clamp_max_def max_sliced_energy_def)

lemma metropolis_accept_ninf:
  assumes "fless rand (Finite 1)"
    and "metropolis env rand w z (NInf, zn, gn, pn) k = (z', k')"
  shows "z' = zn \<and> accept_cnt k' = accept_cnt k + 1 \<and> cache k' = Some (zn, pn, Some gn)
         \<and> iter_t k' = iter_t k + 1 \<and> num_diverging k' = num_diverging k"
  using assms
  by (auto simp add: metropolis_def Let_def clamp_max_def max_sliced_energy_def nan_to_inf_def
      torch_isnan_def)

lemma metropolis_num_diverging:
  "num_diverging (snd (metropolis env rand w z (d, zn, gn, pn) k))
     = num_diverging k
       + (if fless (Finite max_sliced_energy) (nan_to_inf d) \<and> w \<le> iter_t k then 1 else 0)"
  by (simp add: metropolis_def Let_def split: prod.splits)

text \<open>
  C6, as the code has it. For a uniform variate in \<open>[0, 1)\<close>: a \<open>delta_energy\<close> that
  is NaN is replaced by plus infinity and one that is plus infinity stays; in both cases
  \<open>sample\<close> raises nothing, returns the current state and leaves the acceptance counter
  and the cache as they are. A \<open>delta_energy\<close> that is minus infinity is not replaced:
  the proposal is accepted.
\<close>

theorem nonfinite_delta_energy:
  assumes "potential_fn k = Some U" and "warmup_steps k = Some w" and "num_steps k = Inr n"
    and "sample_r k r_flat = Inr (r, rf)"
    and "kinetic_energy (inverse_mass_matrix (adapter k)) r = Inr ke"
    and "velocity_verlet env z r U (inverse_mass_matrix (adapter k)) (Finite (step_size (adapter k)))
           n zg
           = (z_new, r_new, g_new, pe_new)"
    and "kinetic_energy (inverse_mass_matrix (adapter k)) r_new = Inr ke_new"
    and "cache k = Some (z, pe, zg) \<and> z \<noteq> [] \<or> cache k = None \<and> (z, pe, zg) = (ps, U ps, None)"
    and "delta_energy = fsub (fadd ke_new pe_new) (fadd ke pe)"
    and "rand = Finite u" and "0 \<le> u" and "u < 1"
  shows "(delta_energy = NaN \<or> delta_energy = PInf \<longrightarrow>
            nan_to_inf delta_energy = PInf
            \<and> (\<exists>k'. sample env r_flat rand ps k = (Inr z, k')
                  \<and> accept_cnt k' = accept_cnt k \<and> cache k' = Some (z, pe, zg)))
       \<and> (delta_energy = NInf \<longrightarrow>
            nan_to_inf delta_energy = NInf
            \<and> (\<exists>k'. sample env r_flat rand ps k = (Inr z_new, k')
                  \<and> accept_cnt k' = accept_cnt k + 1
                  \<and> cache k' = Some (z_new, pe_new, Some g_new)))"
proof -
  obtain z' k' where m:
    "metropolis env rand w z (delta_energy, z_new, g_new, pe_new) (k\<lparr>cache := Some (z, pe, zg)\<rparr>)
       = (z', k')"
    by (cases "metropolis env rand w z (delta_energy, z_new, g_new, pe_new)
                 (k\<lparr>cache := Some (z, pe, zg)\<rparr>)")
  have s: "sample env r_flat rand ps k = (Inr z', k')"
    using assms(1-8) m [unfolded assms(9)] by (rule sample_value)
  have r0: "\<not> fless rand (Finite 0)" and r1: "fless rand (Finite 1)"
    using assms(10-12) by simp_all
  show ?thesis
  proof (intro conjI impI)
    assume d: "delta_energy = NaN \<or> delta_energy = PInf"
    then show p: "nan_to_inf delta_energy = PInf"
      by (auto simp add: nan_to_inf_def torch_isnan_def)
    from metropolis_reject [OF p r0 m] s
    show "\<exists>k'. sample env r_flat rand ps k = (Inr z, k')
            \<and> accept_cnt k' = accept_cnt k \<and> cache k' = Some (z, pe, zg)"
      by simp
  next
    assume d: "delta_energy = NInf"
    then show "nan_to_inf delta_energy = NInf"
      by (simp add: nan_to_inf_def torch_isnan_def)
    from metropolis_accept_ninf [OF r1 m [unfolded d]] s
    show "\<exists>k'. sample env r_flat rand ps k = (Inr z_new, k')
            \<and> accept_cnt k' = accept_cnt k + 1
            \<and> cache k' = Some (z_new, pe_new, Some g_new)"
      by simp
  qed
qed

text \<open>
  The theorem at the chain whose potential is NaN away from the starting point: the
  energy difference is NaN and the state stays at \<open>x = 0\<close>.
\<close>

theorem nonfinite_delta_energy_witness:
  "\<exists>k'. sample ex_env [Finite 1] (Finite (1/2)) (site_x 0) (ex_kernel nan_potential)
           = (Inr (site_x 0), k')
        \<and> accept_cnt k' = accept_cnt (ex_kernel nan_potential)
        \<and> cache k' = Some (site_x 0, Finite 0, None)"
proof -
  have v: "velocity_verlet ex_env (site_x 0) (site_x 1) nan_potential
             (inverse_mass_matrix (adapter (ex_kernel nan_potential)))
             (Finite (step_size (adapter (ex_kernel nan_potential)))) 1 None
           = (site_x 1, site_x 1, site_x 0, NaN)"
    by (simp add: ex_kernel_fields ex_verlet nan_potential_def)
  have c: "cache (ex_kernel nan_potential) = Some (site_x 0, Finite 0, None) \<and> site_x 0 \<noteq> []
           \<or> cache (ex_kernel nan_potential) = None
             \<and> (site_x 0, Finite 0, None) = (site_x 0, nan_potential (site_x 0), None)"
    by (simp add: ex_kernel_fields nan_potential_def)
  have k1: "kinetic_energy (inverse_mass_matrix (adapter (ex_kernel nan_potential))) (site_x 1)
            = Inr (Finite (1/2))"
    by (simp add: ex_kernel_fields ex_kinetic)
  have d: "NaN = fsub (fadd (Finite (1/2)) NaN) (fadd (Finite (1/2)) (Finite 0))"
    by simp
  from nonfinite_delta_energy [OF ex_kernel_fields(2) ex_kernel_fields(9) ex_num_steps
      ex_sample_r k1 v k1 c d refl, of "1/2"]
  show ?thesis by simp
qed

text \<open>
  C6 as stated fails: on the chain whose potential is minus infinity away from the
  starting point, \<open>delta_energy\<close> is minus infinity, line 311 leaves it as it is, and
  \<open>sample\<close> accepts the proposal \<open>x = 1\<close>: the acceptance counter goes from 0 to 1.
\<close>

theorem ninf_delta_energy_accepted:
  "trajectory ex_env [Finite 1] (site_x 0) (Finite 0) None (ex_kernel ninf_potential)
     = Inr (NInf, site_x 1, site_x 0, NInf)
   \<and> nan_to_inf NInf = NInf
   \<and> fst (sample ex_env [Finite 1] (Finite (1/2)) (site_x 0) (ex_kernel ninf_potential))
       = Inr (site_x 1)
   \<and> accept_cnt (ex_kernel ninf_potential) = 0
   \<and> accept_cnt (snd (sample ex_env [Finite 1] (Finite (1/2)) (site_x 0)
                        (ex_kernel ninf_potential))) = 1"
  by (simp add: ex_trajectory sample_def sample_from_def ex_kernel_fields
      ninf_potential_def fsub_def nan_to_inf_def torch_isnan_def
      metropolis_def clamp_max_def max_sliced_energy_def Let_def)

text \<open>
  C7. For every potential function \<open>U\<close>: when \<open>U\<close> returned NaN, at the proposal or at
  the current state, \<open>sample\<close> raises nothing, returns the current state, leaves the
  acceptance counter and the cache as they are, and adds 1 to the divergence counter if
  the iteration count has reached \<open>warmup_steps\<close> and nothing otherwise. For every
  computed energy difference \<open>d\<close>, the divergence counter grows by 1 exactly when \<open>d\<close> is
  NaN, is \<open>+\<infinity>\<close> or is a number above 1000, and the iteration count has reached
  \<open>warmup_steps\<close>; it stays as it is for every other \<open>d\<close>, \<open>-\<infinity>\<close> included.
\<close>

theorem nan_trajectory_rejected:
  assumes "potential_fn k = Some U" and "warmup_steps k = Some w" and "num_steps k = Inr n"
    and "sample_r k r_flat = Inr (r, rf)"
    and "kinetic_energy (inverse_mass_matrix (adapter k)) r = Inr ke"
    and "velocity_verlet env z r U (inverse_mass_matrix (adapter k)) (Finite (step_size (adapter k)))
           n zg
           = (z_new, r_new, g_new, pe_new)"
    and "kinetic_energy (inverse_mass_matrix (adapter k)) r_new = Inr ke_new"
    and "cache k = Some (z, pe, zg) \<and> z \<noteq> [] \<or> cache k = None \<and> (z, pe, zg) = (ps, U ps, None)"
    and "pe_new = NaN \<or> pe = NaN"
    and "rand = Finite u" and "0 \<le> u" and "u < 1"
  shows "(\<exists>k'. sample env r_flat rand ps k = (Inr z, k')
            \<and> accept_cnt k' = accept_cnt k \<and> cache k' = Some (z, pe, zg)
            \<and> iter_t k' = iter_t k + 1
            \<and> num_diverging k' = num_diverging k + (if w \<le> iter_t k then 1 else 0))
       \<and> (\<forall>d zn gn pn k1.
            num_diverging (snd (metropolis env rand w z (d, zn, gn, pn) k1))
              = num_diverging k1
                + (if (d = NaN \<or> d = PInf \<or> (\<exists>x. d = Finite x \<and> 1000 < x)) \<and> w \<le> iter_t k1
                   then 1 else 0))"
proof (intro conjI allI)
  let ?d = "fsub (fadd ke_new pe_new) (fadd ke pe)"
  obtain z' k' where m:
    "metropolis env rand w z (?d, z_new, g_new, pe_new) (k\<lparr>cache := Some (z, pe, zg)\<rparr>) = (z', k')"
    by (cases "metropolis env rand w z (?d, z_new, g_new, pe_new) (k\<lparr>cache := Some (z, pe, zg)\<rparr>)")
  have s: "sample env r_flat rand ps k = (Inr z', k')"
    using assms(1-8) m by (rule sample_value)
  from assms(9) have "?d = NaN" by auto
  then have p: "nan_to_inf ?d = PInf"
    by (simp add: nan_to_inf_def torch_isnan_def)
  have r0: "\<not> fless rand (Finite 0)"
    using assms(10-12) by simp
  from metropolis_reject [OF p r0 m] s
  show "\<exists>k'. sample env r_flat rand ps k = (Inr z, k')
          \<and> accept_cnt k' = accept_cnt k \<and> cache k' = Some (z, pe, zg)
          \<and> iter_t k' = iter_t k + 1
          \<and> num_diverging k' = num_diverging k + (if w \<le> iter_t k then 1 else 0)"
    by simp
next
  fix d zn gn pn and k1 :: "('a, 'b) hmc"
  show "num_diverging (snd (metropolis env rand w z (d, zn, gn, pn) k1))
          = num_diverging k1
            + (if (d = NaN \<or> d = PInf \<or> (\<exists>x. d = Finite x \<and> 1000 < x)) \<and> w \<le> iter_t k1
               then 1 else 0)"
    using metropolis_num_diverging [of env rand w z d zn gn pn k1]
    by (cases d) (simp_all add: max_sliced_energy_def nan_to_inf_def torch_isnan_def)
qed

text \<open>
  The theorem at the chain whose potential is NaN away from the starting point, with
  \<open>warmup_steps = 0\<close>: the call returns \<open>x = 0\<close> and counts one divergence.
\<close>

theorem nan_trajectory_rejected_witness:
  "\<exists>k'. sample ex_env [Finite 1] (Finite (1/2)) (site_x 0) (ex_kernel nan_potential)
           = (Inr (site_x 0), k')
        \<and> accept_cnt k' = 0 \<and> iter_t k' = 1 \<and> num_diverging k' = 1"
proof -
  have v: "velocity_verlet ex_env (site_x 0) (site_x 1) nan_potential
             (inverse_mass_matrix (adapter (ex_kernel nan_potential)))
             (Finite (step_size (adapter (ex_kernel nan_potential)))) 1 None
           = (site_x 1, site_x 1, site_x 0, NaN)"
    by (simp add: ex_kernel_fields ex_verlet nan_potential_def)
  have c: "cache (ex_kernel nan_potential) = Some (site_x 0, Finite 0, None) \<and> site_x 0 \<noteq> []
           \<or> cache (ex_kernel nan_potential) = None
             \<and> (site_x 0, Finite 0, None) = (site_x 0, nan_potential (site_x 0), None)"
    by (simp add: ex_kernel_fields nan_potential_def)
  have k1: "kinetic_energy (inverse_mass_matrix (adapter (ex_kernel nan_potential))) (site_x 1)
            = Inr (Finite (1/2))"
    by (simp add: ex_kernel_fields ex_kinetic)
  have d: "NaN = NaN \<or> Finite 0 = NaN" by simp
  from nan_trajectory_rejected [OF ex_kernel_fields(2) ex_kernel_fields(9) ex_num_steps
      ex_sample_r k1 v k1 c d refl, of "1/2", THEN conjunct1]
  show ?thesis by (auto simp add: ex_kernel_fields)
qed

subsection \<open>The step size search\<close>

text \<open>
  Floats first. Halving is exact on the even multiples of \<open>2\<^sup>-\<^sup>1\<^sup>0\<^sup>7\<^sup>4\<close>, it takes
  \<open>2\<^sup>-\<^sup>1\<^sup>0\<^sup>7\<^sup>4\<close> to \<open>0.0\<close>, and it keeps a float that is not negative so. Doubling a
  positive float is exact below \<open>2\<^sup>1\<^sup>0\<^sup>2\<^sup>4\<close> and gives \<open>+\<infinity>\<close> from there on.
\<close>

lemma round_half_even_int: "round_half_even (of_int m) = m"
  by (simp add: round_half_even_def)


lemma round_half_even_nonneg: "0 \<le> q \<Longrightarrow> 0 \<le> round_half_even q"
  by (simp add: round_half_even_def Let_def)

lemma overflow_threshold_gt: "2 < overflow_threshold" "1 < overflow_threshold"
  by (simp_all add: overflow_threshold_def)

lemma min_subnormal_pos: "0 < min_subnormal"
  by (simp add: min_subnormal_def)

lemma float_half_Finite:
  "float_half (Finite a) = Finite (of_int (round_half_even (a / 2 / min_subnormal)) * min_subnormal)"
  by (simp add: float_half_def)

lemma float_twice_Finite:
  "float_twice (Finite a)
     = (if overflow_threshold \<le> 2 * \<bar>a\<bar> then (if 0 < a then PInf else NInf) else Finite (2 * a))"
  by (simp add: float_twice_def)

lemma float_twice_PInf: "float_twice PInf = PInf"
  by (simp add: float_twice_def)



lemma float_half_zero: "float_half (Finite 0) = Finite 0"
  by (simp add: float_half_def round_half_even_def)



lemma float_twice_iter:
  assumes "0 < s" and "s < overflow_threshold"
  shows "(float_twice ^^ n) (Finite s)
           = (if 2 ^ n * s < overflow_threshold then Finite (2 ^ n * s) else PInf)"
proof (induction n)
  case 0
  show ?case using assms(2) by simp
next
  case (Suc n)
  show ?case
  proof (cases "2 ^ n * s < overflow_threshold")
    case True
    with Suc.IH have "(float_twice ^^ n) (Finite s) = Finite (2 ^ n * s)" by simp
    moreover have "0 < 2 ^ n * s" using assms by simp
    ultimately show ?thesis
      by (simp add: float_twice_Finite abs_of_pos mult.assoc not_less)
  next
    case False
    with Suc.IH have "(float_twice ^^ n) (Finite s) = PInf" by simp
    moreover have "2 ^ n * s \<le> 2 ^ Suc n * s"
      using assms(1) by simp
    with False have "\<not> 2 ^ Suc n * s < overflow_threshold" by linarith
    ultimately show ?thesis
      by (simp only: funpow.simps o_apply float_twice_PInf if_False)
  qed
qed

text \<open>
  The loop returns at the first iteration \<open>n\<close> whose trial gives another direction than
  the initial one, with the step size scaled \<open>n\<close> times; where the trial of every iteration
  gives the initial direction, it does not return.
\<close>

lemma scale_step_up: "scale_step 1 = float_twice"
  by (rule ext) (simp add: scale_step_def)

lemma scale_step_down: "scale_step (- 1) = float_half"
  by (rule ext) (simp add: scale_step_def)

lemma trial_direction:
  "trial env k U z pe r_flat s = Inr d \<Longrightarrow> d = 1 \<or> d = - 1"
  by (auto simp add: trial_def Let_def split: sum.splits prod.splits if_splits)

lemma search_loop_exit:
  assumes "\<forall>j. 1 \<le> j \<and> j < n \<longrightarrow> D (t + int j) ((scale_step d ^^ j) s) = Inr d"
    and "D (t + int n) ((scale_step d ^^ n) s) = Inr d'" and "d' \<noteq> d" and "1 \<le> n"
  shows "search_loop D d d t s = Some (Inr ((scale_step d ^^ n) s))"
  using assms
proof (induction n arbitrary: t s)
  case 0
  then show ?case by simp
next
  case (Suc m)
  show ?case
  proof (cases "m = 0")
    case True
    with Suc.prems(2) have "D (t + 1) (scale_step d s) = Inr d'" by simp
    with Suc.prems(3) True show ?thesis
      by (subst search_loop.simps, simp) (subst search_loop.simps, simp)
  next
    case False
    then have m1: "1 \<le> m" by simp
    from Suc.prems(1) False have "D (t + int 1) ((scale_step d ^^ 1) s) = Inr d"
      by (auto dest: spec [of _ 1])
    then have first: "D (t + 1) (scale_step d s) = Inr d" by simp
    have rest: "\<forall>j. 1 \<le> j \<and> j < m \<longrightarrow>
                  D (t + 1 + int j) ((scale_step d ^^ j) (scale_step d s)) = Inr d"
    proof (intro allI impI)
      fix j assume "1 \<le> j \<and> j < m"
      then have "1 \<le> Suc j \<and> Suc j < Suc m" by simp
      with Suc.prems(1) have "D (t + int (Suc j)) ((scale_step d ^^ Suc j) s) = Inr d" by blast
      then show "D (t + 1 + int j) ((scale_step d ^^ j) (scale_step d s)) = Inr d"
        by (simp add: funpow_swap1 ac_simps)
    qed
    from Suc.prems(2) have last: "D (t + 1 + int m) ((scale_step d ^^ m) (scale_step d s)) = Inr d'"
      by (simp add: funpow_swap1 ac_simps)
    have "search_loop D d d (t + 1) (scale_step d s)
            = Some (Inr ((scale_step d ^^ m) (scale_step d s)))"
      using rest last Suc.prems(3) m1 by (rule Suc.IH)
    with first show ?thesis
      by (subst search_loop.simps) (simp add: funpow_swap1)
  qed
qed

lemma search_loop_diverges:
  assumes "\<forall>t s. D t s = Inr d"
  shows "search_loop D d d t s = None"
proof (rule ccontr)
  assume "search_loop D d d t s \<noteq> None"
  then obtain y where y: "search_loop D d d t s = Some y" by auto
  have "(\<forall>t s. D t s = Inr d) \<longrightarrow> d = d \<longrightarrow> False"
  proof (rule search_loop.raw_induct
      [where P = "\<lambda>D' dir dn t' s' y'. (\<forall>t s. D' t s = Inr dir) \<longrightarrow> dn = dir \<longrightarrow> False",
        OF _ y])
    fix f :: "(int \<Rightarrow> efloat \<Rightarrow> error + int) \<Rightarrow> int \<Rightarrow> int \<Rightarrow> int \<Rightarrow> efloat \<Rightarrow> (error + efloat) option"
      and D' dir dn t' s' y'
    assume IH: "\<And>D dir dn t s y. f D dir dn t s = Some y
                  \<Longrightarrow> (\<forall>t s. D t s = Inr dir) \<longrightarrow> dn = dir \<longrightarrow> False"
      and step: "(if dn = dir
                  then case D' (t' + 1) (scale_step dir s') of
                         Inl e \<Rightarrow> Some (Inl e)
                       | Inr d \<Rightarrow> f D' dir d (t' + 1) (scale_step dir s')
                  else Some (Inr s')) = Some y'"
    show "(\<forall>t s. D' t s = Inr dir) \<longrightarrow> dn = dir \<longrightarrow> False"
    proof (intro impI)
      assume a: "\<forall>t s. D' t s = Inr dir" and b: "dn = dir"
      with step have "f D' dir dir (t' + 1) (scale_step dir s') = Some y'" by simp
      from IH [OF this] a show False by simp
    qed
  qed
  with assms show False by simp
qed

lemma find_reasonable_step_size_exit:
  assumes "potential_fn k = Some U"
    and "trial env k U z (U z) (draws 0) (Finite (step_size (adapter k))) = Inr d"
    and "\<forall>j. 1 \<le> j \<and> j < n \<longrightarrow>
           trial env k U z (U z) (draws (int j))
             ((scale_step d ^^ j) (Finite (step_size (adapter k)))) = Inr d"
    and "trial env k U z (U z) (draws (int n))
           ((scale_step d ^^ n) (Finite (step_size (adapter k)))) = Inr d'"
    and "d' \<noteq> d" and "1 \<le> n"
  shows "find_reasonable_step_size env draws z k
           = Some (Inr ((scale_step d ^^ n) (Finite (step_size (adapter k)))))"
proof -
  let ?D = "\<lambda>t s. trial env k U z (U z) (draws t) s"
  have a: "\<forall>j. 1 \<le> j \<and> j < n \<longrightarrow>
             ?D (0 + int j) ((scale_step d ^^ j) (Finite (step_size (adapter k)))) = Inr d"
    using assms(3) by simp
  have b: "?D (0 + int n) ((scale_step d ^^ n) (Finite (step_size (adapter k)))) = Inr d'"
    using assms(4) by simp
  have "search_loop ?D d d 0 (Finite (step_size (adapter k)))
          = Some (Inr ((scale_step d ^^ n) (Finite (step_size (adapter k)))))"
    using a b assms(5,6) by (rule search_loop_exit)
  with assms(1,2) show ?thesis
    by (simp add: find_reasonable_step_size_def)
qed

lemma find_reasonable_step_size_diverges:
  assumes "potential_fn k = Some U"
    and "\<forall>t s. trial env k U z (U z) (draws t) s = Inr d"
  shows "find_reasonable_step_size env draws z k = None"
proof -
  have "search_loop (\<lambda>t s. trial env k U z (U z) (draws t) s) d d 0
          (Finite (step_size (adapter k))) = None"
    using assms(2) by (rule search_loop_diverges)
  moreover from assms(2)
  have "trial env k U z (U z) (draws 0) (Finite (step_size (adapter k))) = Inr d"
    by blast
  ultimately show ?thesis
    using assms(1) by (simp add: find_reasonable_step_size_def)
qed












text \<open>
  At the other end of the range, a trial with the step size \<open>+\<infinity>\<close> gives a NaN momentum
  (\<open>inf * 0\<close>), a NaN energy and the direction -1. So for the constant potential, where
  every trial with a finite step size keeps the energy, the search doubles the step size
  1024 times and returns \<open>+\<infinity>\<close>. And where the potential function is NaN at the starting
  point every energy difference is NaN, every direction is -1 and the loop, which has no
  bound on its iterations, does not return.
\<close>

lemma ex_verlet_momentum:
  "\<exists>z_new x g_new. velocity_verlet ex_env (site_x a) (site_x b) U (Diag [Finite 1]) s 1 None
     = (z_new, [(''x'', [x])], g_new, U z_new)"
  by (simp add: ex_env_def leapfrog_env_def leapfrog_verlet_def zero_grad_def
      site_x_def flatten_def kinetic_grad_def axpy_def Let_def)

lemma ex_verlet_inf:
  "\<exists>z_new g_new. velocity_verlet ex_env (site_x a) (site_x b) U (Diag [Finite 1]) PInf 1 None
     = (z_new, [(''x'', [NaN])], g_new, U z_new)"
  by (simp add: ex_env_def leapfrog_env_def leapfrog_verlet_def zero_grad_def
      site_x_def flatten_def kinetic_grad_def axpy_def Let_def)

lemma kinetic_single:
  "\<exists>ke. kinetic_energy (Diag [Finite 1]) [(''x'', [x])] = Inr ke \<and> (x = NaN \<longrightarrow> ke = NaN)"
  by (cases x) (simp_all add: kinetic_energy_def flatten_def fdot_def fsum_def)

lemma ex_trial_inf:
  "trial ex_env (ex_kernel U) U (site_x 0) pe [Finite a] PInf = Inr (- 1)"
proof -
  obtain z_new g_new where v:
    "velocity_verlet ex_env (site_x 0) (site_x a) U (Diag [Finite 1]) PInf 1 None
       = (z_new, [(''x'', [NaN])], g_new, U z_new)"
    using ex_verlet_inf by blast
  obtain ke where ke: "kinetic_energy (Diag [Finite 1]) [(''x'', [NaN])] = Inr ke" "ke = NaN"
    using kinetic_single [of NaN] by blast
  show ?thesis
    by (simp add: trial_def ex_sample_r ex_kinetic ex_kernel_fields v ke)
qed

lemma ex_trial_nan_start:
  "trial ex_env (ex_kernel U) U (site_x 0) NaN [Finite a] s = Inr (- 1)"
proof -
  obtain z_new x g_new where v:
    "velocity_verlet ex_env (site_x 0) (site_x a) U (Diag [Finite 1]) s 1 None
       = (z_new, [(''x'', [x])], g_new, U z_new)"
    using ex_verlet_momentum by blast
  obtain ke where ke: "kinetic_energy (Diag [Finite 1]) [(''x'', [x])] = Inr ke"
    using kinetic_single [of x] by blast
  show ?thesis
    by (simp add: trial_def ex_sample_r ex_kinetic ex_kernel_fields v ke)
qed

lemma twice_iter_one:
  "(float_twice ^^ j) (Finite 1) = (if j < 1024 then Finite (2 ^ j) else PInf)"
proof -
  have "((2::real) ^ j < 2 ^ 1024) = (j < 1024)"
    by (rule power_strict_increasing_iff) simp
  with float_twice_iter [of 1 j] overflow_threshold_gt(2) show ?thesis
    by (simp add: overflow_threshold_def)
qed

lemma flat_potential_returns_inf:
  "find_reasonable_step_size ex_env unit_draws (site_x 0) (ex_kernel flat_potential)
     = Some (Inr PInf)"
proof -
  let ?k = "ex_kernel flat_potential"
  have s1: "step_size (adapter ?k) = 1" by (simp add: ex_kernel_fields)
  have up: "trial ex_env ?k flat_potential (site_x 0) (flat_potential (site_x 0)) (unit_draws t)
              (Finite e) = Inr 1" for t e
    by (simp add: ex_trial flat_potential_def fsub_def direction_threshold_neg unit_draws_def)
  have t0: "trial ex_env ?k flat_potential (site_x 0) (flat_potential (site_x 0)) (unit_draws 0)
              (Finite (step_size (adapter ?k))) = Inr 1"
    by (rule up)
  have mid: "\<forall>j. 1 \<le> j \<and> j < 1024 \<longrightarrow>
               trial ex_env ?k flat_potential (site_x 0) (flat_potential (site_x 0))
                 (unit_draws (int j)) ((scale_step 1 ^^ j) (Finite (step_size (adapter ?k))))
               = Inr 1"
    by (simp add: s1 scale_step_up twice_iter_one up)
  have z: "(scale_step 1 ^^ 1024) (Finite (step_size (adapter ?k))) = PInf"
    by (simp only: s1 scale_step_up twice_iter_one) simp
  have last: "trial ex_env ?k flat_potential (site_x 0) (flat_potential (site_x 0))
                (unit_draws (int 1024)) ((scale_step 1 ^^ 1024) (Finite (step_size (adapter ?k))))
              = Inr (- 1)"
    by (simp only: z unit_draws_def ex_trial_inf)
  have "find_reasonable_step_size ex_env unit_draws (site_x 0) ?k
          = Some (Inr ((scale_step 1 ^^ 1024) (Finite (step_size (adapter ?k)))))"
    using ex_kernel_fields(2) t0 mid last by (rule find_reasonable_step_size_exit) simp_all
  then show ?thesis by (simp only: z)
qed

lemma nan_start_never_returns:
  "find_reasonable_step_size ex_env unit_draws (site_x 0) (ex_kernel nowhere_potential) = None"
proof -
  have "\<forall>t s. trial ex_env (ex_kernel nowhere_potential) nowhere_potential (site_x 0)
                 (nowhere_potential (site_x 0)) (unit_draws t) s = Inr (- 1)"
    by (simp add: nowhere_potential_def unit_draws_def ex_trial_nan_start)
  with ex_kernel_fields(2) show ?thesis
    by (rule find_reasonable_step_size_diverges)
qed

text \<open>
  The loop ends by the range of the floats alone when the trials at the ends of the range
  cross the threshold. Halving a float that is not negative reaches \<open>0.0\<close>, and doubling
  a positive float reaches \<open>+\<infinity>\<close>. So, for trials that raise nothing: if the first
  direction is 1 and a trial with the step size \<open>+\<infinity>\<close> gives the direction -1, or if
  the first direction is -1 and a trial with the step size \<open>0.0\<close> gives the direction 1,
  then \<open>_find_reasonable_step_size\<close> returns.
\<close>

lemma round_half_even_halves:
  assumes "1 \<le> m"
  shows "0 \<le> round_half_even (of_int m / 2) \<and> round_half_even (of_int m / 2) < m"
proof (cases "even m")
  case True
  then obtain q where q: "m = 2 * q" by (auto elim: evenE)
  then have "round_half_even (of_int m / 2) = q"
    using round_half_even_int [of q] by simp
  with q assms show ?thesis by simp
next
  case False
  then obtain q where q: "m = 2 * q + 1" by (auto elim: oddE)
  have fl: "\<lfloor>(of_int m :: real) / 2\<rfloor> = q"
    unfolding q by (simp add: floor_eq_iff)
  have fr: "(of_int m :: real) / 2 - of_int q = 1 / 2"
    unfolding q by (simp add: add_divide_distrib)
  have "round_half_even (of_int m / 2) = (if even q then q else q + 1)"
    by (simp only: round_half_even_def Let_def fl fr) simp
  moreover have "0 \<le> q" using assms q by simp
  ultimately show ?thesis
    using q by (auto elim: oddE)
qed

lemma float_half_reaches_zero_grid:
  "0 \<le> m \<Longrightarrow> \<exists>N. (float_half ^^ N) (Finite (of_int m * min_subnormal)) = Finite 0"
proof (induction "nat m" arbitrary: m rule: less_induct)
  case less
  show ?case
  proof (cases "m = 0")
    case True
    then have "(float_half ^^ 0) (Finite (of_int m * min_subnormal)) = Finite 0" by simp
    then show ?thesis by blast
  next
    case False
    with less.prems have m1: "1 \<le> m" by simp
    let ?m' = "round_half_even (of_int m / 2)"
    have h: "float_half (Finite (of_int m * min_subnormal)) = Finite (of_int ?m' * min_subnormal)"
    proof -
      have "of_int m * min_subnormal / 2 / min_subnormal = (of_int m :: real) / 2"
        using min_subnormal_pos by simp
      then show ?thesis by (simp only: float_half_Finite)
    qed
    from round_half_even_halves [OF m1] have b: "0 \<le> ?m'" "?m' < m" by simp_all
    then have "nat ?m' < nat m" by simp
    from less.hyps [OF this b(1)]
    obtain N where "(float_half ^^ N) (Finite (of_int ?m' * min_subnormal)) = Finite 0" by blast
    with h have "(float_half ^^ Suc N) (Finite (of_int m * min_subnormal)) = Finite 0"
      by (simp only: funpow_Suc_right o_apply)
    then show ?thesis by blast
  qed
qed

lemma float_half_reaches_zero:
  assumes "0 \<le> a"
  shows "\<exists>N. 1 \<le> N \<and> (float_half ^^ N) (Finite a) = Finite 0"
proof -
  let ?m = "round_half_even (a / 2 / min_subnormal)"
  have "0 \<le> a / 2 / min_subnormal"
    using assms min_subnormal_pos by simp
  then have "0 \<le> ?m" by (rule round_half_even_nonneg)
  from float_half_reaches_zero_grid [OF this]
  obtain N where "(float_half ^^ N) (Finite (of_int ?m * min_subnormal)) = Finite 0" by blast
  then have "(float_half ^^ Suc N) (Finite a) = Finite 0"
    by (simp only: funpow_Suc_right o_apply float_half_Finite)
  then show ?thesis by (intro exI [of _ "Suc N"]) simp
qed

lemma float_twice_reaches_inf:
  assumes "0 < s" and "s < overflow_threshold"
  shows "\<exists>N. 1 \<le> N \<and> (float_twice ^^ N) (Finite s) = PInf"
proof -
  obtain N where N: "overflow_threshold / s < 2 ^ N"
    using real_arch_pow [of 2 "overflow_threshold / s"] by auto
  then have "overflow_threshold < 2 ^ N * s"
    using assms(1) by (simp add: field_simps)
  then have "(float_twice ^^ N) (Finite s) = PInf"
    using float_twice_iter [OF assms, of N] by simp
  moreover have "N \<noteq> 0"
  proof
    assume "N = 0"
    with \<open>overflow_threshold < 2 ^ N * s\<close> assms(2) show False by simp
  qed
  ultimately show ?thesis by (intro exI [of _ N]) simp
qed

lemma find_reasonable_step_size_terminates:
  assumes "potential_fn k = Some U"
    and "trial env k U z (U z) (draws 0) (Finite (step_size (adapter k))) = Inr d"
    and "\<forall>t s. \<exists>d'. trial env k U z (U z) (draws t) s = Inr d'"
    and "0 < step_size (adapter k)" and "step_size (adapter k) < overflow_threshold"
    and "d = 1 \<longrightarrow> (\<forall>t. trial env k U z (U z) (draws t) PInf = Inr (- 1))"
    and "d = - 1 \<longrightarrow> (\<forall>t. trial env k U z (U z) (draws t) (Finite 0) = Inr 1)"
  shows "\<exists>n. 1 \<le> n \<and> find_reasonable_step_size env draws z k
                 = Some (Inr ((scale_step d ^^ n) (Finite (step_size (adapter k)))))"
proof -
  let ?s = "Finite (step_size (adapter k))"
  let ?D = "\<lambda>j. trial env k U z (U z) (draws (int j)) ((scale_step d ^^ j) ?s)"
  have d: "d = 1 \<or> d = - 1"
    using assms(2) by (rule trial_direction)
  have "\<exists>N. 1 \<le> N \<and> ?D N \<noteq> Inr d"
  proof (rule disjE [OF d])
    assume d1: "d = 1"
    from float_twice_reaches_inf [OF assms(4,5)]
    obtain N where N: "1 \<le> N" "(float_twice ^^ N) ?s = PInf" by blast
    from assms(6) d1 have "trial env k U z (U z) (draws (int N)) PInf = Inr (- 1)" by blast
    with N(2) d1 have "?D N = Inr (- 1)" by (simp only: scale_step_up)
    with d1 N(1) show ?thesis by (intro exI [of _ N]) simp
  next
    assume d1: "d = - 1"
    from assms(4) have "0 \<le> step_size (adapter k)" by simp
    from float_half_reaches_zero [OF this]
    obtain N where N: "1 \<le> N" "(float_half ^^ N) ?s = Finite 0" by blast
    from assms(7) d1 have "trial env k U z (U z) (draws (int N)) (Finite 0) = Inr 1" by blast
    with N(2) d1 have "?D N = Inr 1" by (simp only: scale_step_down)
    with d1 N(1) show ?thesis by (intro exI [of _ N]) simp
  qed
  then obtain N where N: "1 \<le> N \<and> ?D N \<noteq> Inr d" by blast
  define n where "n = (LEAST j. 1 \<le> j \<and> ?D j \<noteq> Inr d)"
  have n: "1 \<le> n \<and> ?D n \<noteq> Inr d"
    unfolding n_def using N by (rule LeastI)
  have before: "\<forall>j. 1 \<le> j \<and> j < n \<longrightarrow> ?D j = Inr d"
  proof (intro allI impI, rule ccontr)
    fix j assume j: "1 \<le> j \<and> j < n" and "?D j \<noteq> Inr d"
    then have "n \<le> j"
      unfolding n_def by (intro Least_le) simp
    with j show False by simp
  qed
  from assms(3) obtain d' where d': "?D n = Inr d'" by blast
  with n have ne: "d' \<noteq> d" by auto
  from n have n1: "1 \<le> n" by simp
  have "find_reasonable_step_size env draws z k = Some (Inr ((scale_step d ^^ n) ?s))"
    using assms(1,2) before d' ne n1 by (rule find_reasonable_step_size_exit)
  with n show ?thesis by blast
qed

subsection \<open>The counters\<close>

lemma metropolis_counters:
  assumes "metropolis env rand w z prop k = (z', k')"
  shows "iter_t k' = iter_t k + 1 \<and> (accept_cnt k' = accept_cnt k \<or> accept_cnt k' = accept_cnt k + 1)"
  using assms
  by (auto simp add: metropolis_def Let_def split: prod.splits if_splits)

lemma sample_from_counters:
  assumes "sample_from env r_flat rand z pe zg k = (res, k')"
  shows "case res of
           Inl e \<Rightarrow> iter_t k' = iter_t k \<and> accept_cnt k' = accept_cnt k
         | Inr z' \<Rightarrow> iter_t k' = iter_t k + 1
              \<and> (accept_cnt k' = accept_cnt k \<or> accept_cnt k' = accept_cnt k + 1)"
  using assms
  by (auto simp add: sample_from_def split: sum.splits option.splits prod.splits
      dest: metropolis_counters)

text \<open>
  A call of \<open>sample\<close> that returns adds 1 to \<open>_t\<close> and 0 or 1 to \<open>_accept_cnt\<close>; one
  that raises leaves both as they are.
\<close>

lemma sample_counters:
  assumes "sample env r_flat rand ps k = (res, k')"
  shows "case res of
           Inl e \<Rightarrow> iter_t k' = iter_t k \<and> accept_cnt k' = accept_cnt k
         | Inr z' \<Rightarrow> iter_t k' = iter_t k + 1
              \<and> (accept_cnt k' = accept_cnt k \<or> accept_cnt k' = accept_cnt k + 1)"
proof (cases "cache k")
  case None
  show ?thesis
  proof (cases "potential_fn k")
    case N: None
    with None assms show ?thesis by (auto simp add: sample_def)
  next
    case (Some U)
    with None assms
    have "sample_from env r_flat rand ps (U ps) None (k\<lparr>cache := Some (ps, U ps, None)\<rparr>) = (res, k')"
      by (simp add: sample_def Let_def)
    from sample_from_counters [OF this] show ?thesis by (cases res) simp_all
  qed
next
  case (Some c)
  obtain z pe zg where c: "c = (z, pe, zg)" by (cases c) auto
  show ?thesis
  proof (cases "length z = 0")
    case True
    with Some c assms show ?thesis by (auto simp add: sample_def)
  next
    case False
    with Some c assms have "sample_from env r_flat rand z pe zg k = (res, k')"
      by (simp add: sample_def)
    from sample_from_counters [OF this] show ?thesis .
  qed
qed

lemma setup_counters:
  "iter_t (snd (hmc_setup env w k)) = iter_t k \<and> accept_cnt (snd (hmc_setup env w k)) = accept_cnt k"
  by (simp add: hmc_setup_def initialize_adapter_def Let_def split: option.splits prod.splits)

lemma do_call_counters_ok:
  assumes "counters_ok k" shows "counters_ok (do_call env c k)"
proof (cases c)
  case (Setup w)
  with assms show ?thesis by (simp add: counters_ok_def setup_counters)
next
  case (Sample r_flat rand ps)
  obtain res k' where s: "sample env r_flat rand ps k = (res, k')"
    by (cases "sample env r_flat rand ps k")
  from sample_counters [OF s] assms Sample s show ?thesis
    by (cases res) (auto simp add: counters_ok_def)
next
  case Diagnostics
  with assms show ?thesis by (simp add: counters_ok_def diagnostics_def)
next
  case Cleanup
  then show ?thesis by (simp add: counters_ok_def cleanup_def reset_def)
next
  case ClearCache
  with assms show ?thesis by (simp add: counters_ok_def clear_cache_def)
next
  case (SetInitialParams p)
  with assms show ?thesis by (simp add: counters_ok_def set_initial_params_def)
qed

lemma run_counters_ok:
  "counters_ok k \<Longrightarrow> counters_ok (run env cs k)"
  by (induction cs arbitrary: k) (simp_all add: do_call_counters_ok)

lemma HMC_init_counters_ok:
  "HMC_init mdl pot s0 tlen ns ad = Inr k \<Longrightarrow> counters_ok k"
  by (auto simp add: HMC_init_def reset_def counters_ok_def split: if_splits)

lemma diagnostics_rate:
  assumes "counters_ok k" and "diagnostics k = (Inr (s, rate, nd), k')"
  shows "0 \<le> rate \<and> rate \<le> 1"
proof -
  from assms(2) have t: "iter_t k \<noteq> 0" and r: "rate = of_int (accept_cnt k) / of_int (iter_t k)"
    by (auto simp add: diagnostics_def split: if_splits)
  from assms(1) t have "0 < iter_t k" "0 \<le> accept_cnt k" "accept_cnt k \<le> iter_t k"
    by (auto simp add: counters_ok_def)
  then show ?thesis unfolding r by (simp add: divide_le_eq_1)
qed

text \<open>
  C9. After every sequence \<open>cs\<close> of calls (\<open>setup\<close>, \<open>sample\<close>, \<open>diagnostics\<close>,
  \<open>cleanup\<close>, \<open>clear_cache\<close>, setting \<open>initial_params\<close>) on a kernel that \<open>__init__\<close>
  constructed, \<open>0 \<le> _accept_cnt \<le> _t\<close>; a further \<open>sample\<close> that returns adds exactly
  1 to \<open>_t\<close> and 0 or 1 to \<open>_accept_cnt\<close>; a further \<open>setup\<close> changes neither; and the
  acceptance rate that \<open>diagnostics\<close> returns lies in \<open>[0, 1]\<close>.
\<close>

theorem accept_cnt_bounded:
  assumes "HMC_init mdl pot s0 tlen ns ad = Inr k0"
  shows "0 \<le> accept_cnt (run env cs k0) \<and> accept_cnt (run env cs k0) \<le> iter_t (run env cs k0)
       \<and> (\<forall>r_flat rand ps z k'.
            sample env r_flat rand ps (run env cs k0) = (Inr z, k') \<longrightarrow>
              iter_t k' = iter_t (run env cs k0) + 1
              \<and> (accept_cnt k' = accept_cnt (run env cs k0)
                 \<or> accept_cnt k' = accept_cnt (run env cs k0) + 1))
       \<and> (\<forall>w. iter_t (snd (hmc_setup env w (run env cs k0))) = iter_t (run env cs k0)
              \<and> accept_cnt (snd (hmc_setup env w (run env cs k0))) = accept_cnt (run env cs k0))
       \<and> (\<forall>stepsize rate nd k'.
            diagnostics (run env cs k0) = (Inr (stepsize, rate, nd), k') \<longrightarrow> 0 \<le> rate \<and> rate \<le> 1)"
proof -
  have ok: "counters_ok (run env cs k0)"
    using assms by (intro run_counters_ok HMC_init_counters_ok)
  show ?thesis
  proof (intro conjI allI impI)
    from ok show "0 \<le> accept_cnt (run env cs k0)" "accept_cnt (run env cs k0) \<le> iter_t (run env cs k0)"
      by (simp_all add: counters_ok_def)
  next
    fix r_flat rand ps z k'
    assume "sample env r_flat rand ps (run env cs k0) = (Inr z, k')"
    from sample_counters [OF this]
    show "iter_t k' = iter_t (run env cs k0) + 1"
      "accept_cnt k' = accept_cnt (run env cs k0) \<or> accept_cnt k' = accept_cnt (run env cs k0) + 1"
      by simp_all
  next
    fix w
    show "iter_t (snd (hmc_setup env w (run env cs k0))) = iter_t (run env cs k0)"
      "accept_cnt (snd (hmc_setup env w (run env cs k0))) = accept_cnt (run env cs k0)"
      by (simp_all add: setup_counters)
  next
    fix stepsize rate nd k'
    assume "diagnostics (run env cs k0) = (Inr (stepsize, rate, nd), k')"
    from diagnostics_rate [OF ok this] show "0 \<le> rate" "rate \<le> 1" by simp_all
  qed
qed

text \<open>
  The theorem at the chain with the constant potential, after \<open>initial_params\<close>,
  \<open>setup(0)\<close> and one \<open>sample\<close>: \<open>_t\<close> is 1.
\<close>

theorem accept_cnt_bounded_witness:
  "iter_t (run ex_env [SetInitialParams (site_x 0), Setup 0,
                       Sample [Finite 1] (Finite (1/2)) (site_x 0)]
             (new_kernel flat_potential)) = 1
   \<and> 0 \<le> accept_cnt (run ex_env [SetInitialParams (site_x 0), Setup 0,
                       Sample [Finite 1] (Finite (1/2)) (site_x 0)]
             (new_kernel flat_potential))
   \<and> accept_cnt (run ex_env [SetInitialParams (site_x 0), Setup 0,
                       Sample [Finite 1] (Finite (1/2)) (site_x 0)]
             (new_kernel flat_potential))
       \<le> iter_t (run ex_env [SetInitialParams (site_x 0), Setup 0,
                       Sample [Finite 1] (Finite (1/2)) (site_x 0)]
             (new_kernel flat_potential))"
proof -
  have "run ex_env [SetInitialParams (site_x 0), Setup 0,
                    Sample [Finite 1] (Finite (1/2)) (site_x 0)]
             (new_kernel flat_potential)
        = snd (sample ex_env [Finite 1] (Finite (1/2)) (site_x 0) (ex_kernel flat_potential))"
    using new_kernel_setup [of flat_potential] by simp
  then have "iter_t (run ex_env [SetInitialParams (site_x 0), Setup 0,
                       Sample [Finite 1] (Finite (1/2)) (site_x 0)]
             (new_kernel flat_potential)) = 1"
    by (simp add: ex_sample_flat)
  with accept_cnt_bounded [where env = ex_env
      and cs = "[SetInitialParams (site_x 0), Setup 0, Sample [Finite 1] (Finite (1/2)) (site_x 0)]",
      OF new_kernel_init [of flat_potential]]
  show ?thesis by blast
qed

text \<open>
  C10. On a kernel with \<open>_t = 0\<close>, \<open>diagnostics\<close> raises ZeroDivisionError; with
  \<open>_t \<ge> 1\<close> it returns the step size, \<open>_accept_cnt / _t\<close> and the number of divergences;
  in both cases the kernel is unchanged. \<open>_t\<close> is 0 after \<open>__init__\<close>, after a \<open>setup\<close>
  that follows it, and after \<open>_reset\<close>.
\<close>

theorem diagnostics_zero_division:
  "(iter_t k = 0 \<longrightarrow> diagnostics k = (Inl ZeroDivisionError, k))
   \<and> (1 \<le> iter_t k \<longrightarrow>
        diagnostics k
          = (Inr (step_size (adapter k), of_int (accept_cnt k) / of_int (iter_t k), num_diverging k), k))
   \<and> (HMC_init mdl pot s0 tlen ns ad = Inr k \<longrightarrow>
        iter_t k = 0 \<and> iter_t (snd (hmc_setup env w k)) = 0)
   \<and> iter_t (reset k) = 0"
  by (auto simp add: diagnostics_def HMC_init_def reset_def setup_counters split: if_splits)

text \<open>
  The theorem at the chain with the constant potential: \<open>diagnostics\<close> raises after
  construction and after \<open>setup\<close>, and returns the rate 1 after one accepted \<open>sample\<close>.
\<close>

theorem diagnostics_zero_division_witness:
  "diagnostics (new_kernel flat_potential) = (Inl ZeroDivisionError, new_kernel flat_potential)
   \<and> diagnostics (snd (hmc_setup ex_env 0 (new_kernel flat_potential)))
       = (Inl ZeroDivisionError, snd (hmc_setup ex_env 0 (new_kernel flat_potential)))
   \<and> fst (diagnostics (snd (sample ex_env [Finite 1] (Finite (1/2)) (site_x 0)
                               (ex_kernel flat_potential)))) = Inr (1, 1, 0)"
proof -
  have i: "iter_t (new_kernel flat_potential) = 0"
    by (simp add: new_kernel_def)
  have s: "iter_t (snd (hmc_setup ex_env 0 (new_kernel flat_potential))) = 0"
    using diagnostics_zero_division [of "new_kernel flat_potential" None "Some flat_potential" 1
        "Some 1" None ex_adapter ex_env 0] new_kernel_init [of flat_potential]
    by simp
  have t: "1 \<le> iter_t (snd (sample ex_env [Finite 1] (Finite (1/2)) (site_x 0)
                               (ex_kernel flat_potential)))"
    by (simp add: ex_sample_flat)
  from diagnostics_zero_division [of "new_kernel flat_potential"] i
  have a: "diagnostics (new_kernel flat_potential)
             = (Inl ZeroDivisionError, new_kernel flat_potential)"
    by blast
  from diagnostics_zero_division [of "snd (hmc_setup ex_env 0 (new_kernel flat_potential))"] s
  have b: "diagnostics (snd (hmc_setup ex_env 0 (new_kernel flat_potential)))
       = (Inl ZeroDivisionError, snd (hmc_setup ex_env 0 (new_kernel flat_potential)))"
    by blast
  from diagnostics_zero_division [of "snd (sample ex_env [Finite 1] (Finite (1/2)) (site_x 0)
                               (ex_kernel flat_potential))"] t
  have c: "fst (diagnostics (snd (sample ex_env [Finite 1] (Finite (1/2)) (site_x 0)
                               (ex_kernel flat_potential)))) = Inr (1, 1, 0)"
    by (simp add: ex_sample_flat ex_kernel_fields)
  from a b c show ?thesis by simp
qed

end
